theory Spec2Isabelle
  imports Complex_Main "HOL-Library.Word" "HOL-Library.Monad_Syntax"
begin

unbundle bit_operations_syntax

section \<open>Data model (types.go)\<close>

type_synonym u8 = "8 word"
type_synonym u16 = "16 word"
type_synonym u64 = "64 word"

text \<open>\<^verbatim>\<open>type ColorT uint8\<close> with the constants White = 0 and Black = 1. Every array indexed
  by a colour has \<^verbatim>\<open>NColors\<close> = 2 slots, so the two constants are the only usable values.\<close>

datatype ColorT = White | Black

fun oppColor :: "ColorT \<Rightarrow> ColorT" where
  "oppColor White = Black"
| "oppColor Black = White"

fun color_idx :: "ColorT \<Rightarrow> nat" where
  "color_idx White = 0"
| "color_idx Black = 1"

text \<open>\<^verbatim>\<open>type CastleRightsT uint8\<close>: Queenside = 0, Kingside = 1.\<close>

datatype CastleRightsT = Queenside | Kingside

fun toFlag :: "CastleRightsT \<Rightarrow> u8" where
  "toFlag Queenside = 1"
| "toFlag Kingside = 2"

text \<open>\<^verbatim>\<open>type Piece uint8\<close>: Nothing = 0, Pawn .. King = 1 .. 6, and \<^verbatim>\<open>All = NPieces\<close> = 7, the
  index of the union bitboard in \<^verbatim>\<open>Bitboards [NPiecesWithAll]uint64\<close>. The eight values are
  exactly what the three promotion bits of a move can hold.\<close>

datatype Piece = Nothing | Pawn | Knight | Bishop | Rook | Queen | King | AllP

fun piece_idx :: "Piece \<Rightarrow> nat" where
  "piece_idx Nothing = 0"
| "piece_idx Pawn = 1"
| "piece_idx Knight = 2"
| "piece_idx Bishop = 3"
| "piece_idx Rook = 4"
| "piece_idx Queen = 5"
| "piece_idx King = 6"
| "piece_idx AllP = 7"

definition piece_of_idx :: "nat \<Rightarrow> Piece" where
  "piece_of_idx n =
     (if n = 0 then Nothing else if n = 1 then Pawn else if n = 2 then Knight
      else if n = 3 then Bishop else if n = 4 then Rook else if n = 5 then Queen
      else if n = 6 then King else AllP)"

subsection \<open>Moves\<close>

text \<open>\<^verbatim>\<open>type Move uint16\<close>: bits 0-5 destination, bits 6-11 origin, bits 12-14 promotion,
  bit 15 the "simple" hint.\<close>

type_synonym Move = u16

definition To :: "Move \<Rightarrow> u8" where
  "To m = ucast (m AND 0x3F)"

definition From :: "Move \<Rightarrow> u8" where
  "From m = ucast (drop_bit 6 (m AND 0xFC0))"

definition Promote :: "Move \<Rightarrow> Piece" where
  "Promote m = piece_of_idx (unat (drop_bit 12 (m AND 0x7000)))"

definition IsSimple :: "Move \<Rightarrow> bool" where
  "IsSimple m \<longleftrightarrow> m AND 0x8000 \<noteq> 0"

text \<open>The setters take a \<^verbatim>\<open>Square\<close> (a \<^verbatim>\<open>uint8\<close>) and convert it with \<^verbatim>\<open>Move(s)\<close>.\<close>

definition Setto :: "u8 \<Rightarrow> Move \<Rightarrow> Move" where
  "Setto s m = (m AND NOT 0x3F) OR ucast s"

definition Setfrom :: "u8 \<Rightarrow> Move \<Rightarrow> Move" where
  "Setfrom s m = (m AND NOT 0xFC0) OR push_bit 6 (ucast s)"

definition Setpromote :: "Piece \<Rightarrow> Move \<Rightarrow> Move" where
  "Setpromote p m = (m AND NOT 0x7000) OR push_bit 12 (of_nat (piece_idx p))"

definition Setsimple :: "Move \<Rightarrow> Move" where
  "Setsimple m = m OR 0x8000"

section \<open>Move strings (util.go)\<close>

text \<open>A Go function that returns \<^verbatim>\<open>(T, error)\<close> is modelled as returning a pair of the value
  and an optional error; a run-time panic (an index out of range) is the outer \<open>None\<close>.\<close>

datatype error = InvalidAlgebraic string | InvalidMoveToParse | InvalidPromotionSymbol

text \<open>\<^verbatim>\<open>strings.ToLower(alg)[0]\<close>. Go strings are byte strings. An ASCII upper-case letter is
  lowered and any other ASCII byte is kept. For a first byte of 0x80 or more, ToLower decodes
  a rune (or the replacement rune) and re-encodes its lower-case form: the first byte of the
  result is again 0x80 or more, except for U+0130 and U+212A, whose lower-case forms are the
  letters i and k. None of these bytes lies in the range a..h that the caller tests, and the
  model keeps the first byte as it is.\<close>

definition ToLower_byte :: "char \<Rightarrow> char" where
  "ToLower_byte c =
     (if of_char CHR ''A'' \<le> (of_char c :: nat) \<and> (of_char c :: nat) \<le> of_char CHR ''Z''
      then char_of (of_char c + (32::nat)) else c)"

definition AlgebraicToIndex :: "string \<Rightarrow> (u8 \<times> error option) option" where
  "AlgebraicToIndex alg =
     (case alg of
        [] \<Rightarrow> None
      | c0 # rest \<Rightarrow>
          (let firstchar = (of_char (ToLower_byte c0) :: nat) in
           if firstchar < of_char CHR ''a'' \<or> firstchar > of_char CHR ''h''
           then Some (64, Some (InvalidAlgebraic alg))
           else (case rest of
                   [] \<Rightarrow> None
                 | c1 # _ \<Rightarrow>
                     if (of_char c1 :: nat) < of_char CHR ''1'' \<or> (of_char c1 :: nat) > of_char CHR ''8''
                     then Some (64, Some (InvalidAlgebraic alg))
                     else Some ((of_nat firstchar - of_nat (of_char CHR ''a''))
                                + ((of_nat (of_char c1) - of_nat (of_char CHR ''1'')) * 8), None))))"

text \<open>\<^verbatim>\<open>ParseMove\<close>: the slices \<^verbatim>\<open>movestr[0:2]\<close> and \<^verbatim>\<open>movestr[2:4]\<close> are taken after the
  length test, so they are in range; both squares are parsed before the errors are tested.\<close>

definition ParseMove :: "string \<Rightarrow> (Move \<times> error option) option" where
  "ParseMove movestr =
     (if movestr = ''0000'' then Some (0, None)
      else if length movestr < 4 \<or> length movestr > 5 then Some (0, Some InvalidMoveToParse)
      else
        (case AlgebraicToIndex (take 2 movestr) of
           None \<Rightarrow> None
         | Some (from, errf) \<Rightarrow>
             (case AlgebraicToIndex (take 2 (drop 2 movestr)) of
                None \<Rightarrow> None
              | Some (to, errto) \<Rightarrow>
                  if errf \<noteq> None \<or> errto \<noteq> None then Some (0, Some InvalidMoveToParse)
                  else
                    (let mv = Setfrom from (Setto to 0) in
                     if length movestr = 5 then
                       (let c = movestr ! 4 in
                        if c = CHR ''n'' then Some (Setpromote Knight mv, None)
                        else if c = CHR ''b'' then Some (Setpromote Bishop mv, None)
                        else if c = CHR ''q'' then Some (Setpromote Queen mv, None)
                        else if c = CHR ''r'' then Some (Setpromote Rook mv, None)
                        else Some (mv, Some InvalidPromotionSymbol))
                     else Some (mv, None)))))"

text \<open>The two readings of "a valid square": the specification's (file a-h, rank 1-8) and the
  one the parser implements, which lowers the file letter first.\<close>

definition square_chars_spec :: "char \<Rightarrow> char \<Rightarrow> bool" where
  "square_chars_spec f r \<longleftrightarrow>
     of_char CHR ''a'' \<le> (of_char f :: nat) \<and> (of_char f :: nat) \<le> of_char CHR ''h'' \<and>
     of_char CHR ''1'' \<le> (of_char r :: nat) \<and> (of_char r :: nat) \<le> of_char CHR ''8''"

definition square_chars_code :: "char \<Rightarrow> char \<Rightarrow> bool" where
  "square_chars_code f r \<longleftrightarrow>
     ((of_char CHR ''a'' \<le> (of_char f :: nat) \<and> (of_char f :: nat) \<le> of_char CHR ''h'') \<or>
      (of_char CHR ''A'' \<le> (of_char f :: nat) \<and> (of_char f :: nat) \<le> of_char CHR ''H'')) \<and>
     of_char CHR ''1'' \<le> (of_char r :: nat) \<and> (of_char r :: nat) \<le> of_char CHR ''8''"

definition promo_char :: "char \<Rightarrow> bool" where
  "promo_char c \<longleftrightarrow> c = CHR ''n'' \<or> c = CHR ''b'' \<or> c = CHR ''r'' \<or> c = CHR ''q''"

definition parse_ok :: "string \<Rightarrow> bool" where
  "parse_ok s \<longleftrightarrow> (\<exists>m. ParseMove s = Some (m, None))"


section \<open>The board (types.go)\<close>

text \<open>\<^verbatim>\<open>Bitboards [NPiecesWithAll]uint64\<close>, indexed by a piece, and \<^verbatim>\<open>Bbs [NColors]Bitboards\<close>,
  indexed by a colour: a function of the two indices. \<^verbatim>\<open>util.go\<close> and the move generator
  name the same slots as fields (\<^verbatim>\<open>.All\<close>, \<^verbatim>\<open>.Pawns\<close>, \<^verbatim>\<open>.Kings\<close>, ...); the model reads them as
  the slots \<open>AllP\<close>, \<open>Pawn\<close>, \<open>King\<close>, ... The array \<^verbatim>\<open>pieces [64]Piece\<close> is a list, and a board
  of the program has 64 entries in it.\<close>

record Board =
  Colortomove :: ColorT
  enpassant :: u8
  Halfmoveclock :: u8
  castlerights :: "ColorT \<Rightarrow> u8"
  Fullmoveno :: u16
  Bbs :: "ColorT \<Rightarrow> Piece \<Rightarrow> u64"
  pieces :: "Piece list"
  hash :: u64

text \<open>A pointer to one bitboard (\<^verbatim>\<open>&b.Bbs[col][piece]\<close>) is the pair of its indices.\<close>

type_synonym bbptr = "ColorT \<times> Piece"

definition bb_get :: "bbptr \<Rightarrow> Board \<Rightarrow> u64" where
  "bb_get p b = Bbs b (fst p) (snd p)"

definition bb_set :: "bbptr \<Rightarrow> u64 \<Rightarrow> Board \<Rightarrow> Board" where
  "bb_set p v b = b\<lparr>Bbs := (Bbs b)(fst p := (Bbs b (fst p))(snd p := v))\<rparr>"

text \<open>\<^verbatim>\<open>uint64(1) << pos\<close> with a \<^verbatim>\<open>uint8\<close> shift count: Go yields 0 for a count of 64 or more,
  as \<open>push_bit\<close> on a 64-bit word does.\<close>

definition bitAt :: "u8 \<Rightarrow> u64" where
  "bitAt pos = push_bit (unat pos) 1"

text \<open>Reads and writes of \<^verbatim>\<open>b.pieces[pos]\<close>: an index outside the array panics.\<close>

definition PieceAt :: "Board \<Rightarrow> u8 \<Rightarrow> Piece option" where
  "PieceAt b pos = (if unat pos < length (pieces b) then Some (pieces b ! unat pos) else None)"

definition pieces_set :: "u8 \<Rightarrow> Piece \<Rightarrow> Board \<Rightarrow> Board option" where
  "pieces_set pos p b =
     (if unat pos < length (pieces b) then Some (b\<lparr>pieces := (pieces b)[unat pos := p]\<rparr>) else None)"

definition addPiece :: "Piece \<Rightarrow> u8 \<Rightarrow> bbptr \<Rightarrow> bbptr \<Rightarrow> Board \<Rightarrow> Board option" where
  "addPiece piece pos pieceBitboard allBitboard b = do {
     let b = bb_set pieceBitboard (bb_get pieceBitboard b OR bitAt pos) b;
     let b = bb_set allBitboard (bb_get allBitboard b OR bitAt pos) b;
     pieces_set pos piece b
   }"

definition removePiece :: "Piece \<Rightarrow> u8 \<Rightarrow> bbptr \<Rightarrow> bbptr \<Rightarrow> Board \<Rightarrow> Board option" where
  "removePiece piece pos pieceBitboard allBitboard b = do {
     let b = bb_set pieceBitboard (bb_get pieceBitboard b AND NOT (bitAt pos)) b;
     let b = bb_set allBitboard (bb_get allBitboard b AND NOT (bitAt pos)) b;
     pieces_set pos Nothing b
   }"

definition movePiece ::
  "Piece \<Rightarrow> Piece \<Rightarrow> u8 \<Rightarrow> u8 \<Rightarrow> bbptr \<Rightarrow> bbptr \<Rightarrow> bbptr \<Rightarrow> Board \<Rightarrow> Board option" where
  "movePiece piece destPiece from to pieceBitboard destTypeBitboard allBitboard b = do {
     b \<leftarrow> removePiece piece from pieceBitboard allBitboard b;
     addPiece destPiece to destTypeBitboard allBitboard b
   }"

subsection \<open>Zobrist constants\<close>

text \<open>The tables \<^verbatim>\<open>pieceSquareZobristC\<close>, \<^verbatim>\<open>castleRightsZobristC\<close> and the constant
  \<^verbatim>\<open>whiteToMoveZobristC\<close> are declared in a file that is not among the sources; the functions
  that use them take them as a parameter. Modelled from the spec: \<^verbatim>\<open>pieceSquareZobristC\<close> has
  12 rows (white pawn .. white king, black pawn .. black king) of 64 entries, so a row index
  outside 0..11 or a square of 64 or more panics.\<close>

record ZobristT =
  pieceSquareZobristC :: "nat \<Rightarrow> nat \<Rightarrow> u64"
  castleRightsZobristC :: "ColorT \<Rightarrow> CastleRightsT \<Rightarrow> u64"
  whiteToMoveZobristC :: u64

definition psz :: "ZobristT \<Rightarrow> int \<Rightarrow> u8 \<Rightarrow> u64 option" where
  "psz z i sq =
     (if 0 \<le> i \<and> i < 12 \<and> unat sq < 64 then Some (pieceSquareZobristC z (nat i) (unat sq))
      else None)"

definition hash_xor :: "u64 \<Rightarrow> Board \<Rightarrow> Board" where
  "hash_xor v b = b\<lparr>hash := hash b XOR v\<rparr>"

subsection \<open>Castle rights\<close>

definition canCastle :: "Board \<Rightarrow> ColorT \<Rightarrow> CastleRightsT \<Rightarrow> bool" where
  "canCastle b color side \<longleftrightarrow> castlerights b color AND toFlag side \<noteq> 0"

definition weCanCastle :: "Board \<Rightarrow> CastleRightsT \<Rightarrow> bool" where
  "weCanCastle b side = canCastle b (Colortomove b) side"

definition oppCanCastle :: "Board \<Rightarrow> CastleRightsT \<Rightarrow> bool" where
  "oppCanCastle b side = canCastle b (oppColor (Colortomove b)) side"

definition flipCastleRights :: "ZobristT \<Rightarrow> ColorT \<Rightarrow> CastleRightsT \<Rightarrow> Board \<Rightarrow> Board" where
  "flipCastleRights z color side b =
     b\<lparr>castlerights := (castlerights b)(color := castlerights b color XOR toFlag side),
       hash := hash b XOR castleRightsZobristC z color side\<rparr>"

definition flipOurCastleRights :: "ZobristT \<Rightarrow> CastleRightsT \<Rightarrow> Board \<Rightarrow> Board" where
  "flipOurCastleRights z side b = flipCastleRights z (Colortomove b) side b"

definition flipOppCastleRights :: "ZobristT \<Rightarrow> CastleRightsT \<Rightarrow> Board \<Rightarrow> Board" where
  "flipOppCastleRights z side b = flipCastleRights z (oppColor (Colortomove b)) side b"

subsection \<open>Rank and file masks\<close>

text \<open>Modelled from the spec: \<^verbatim>\<open>onlyFile[0..7]\<close> and \<^verbatim>\<open>onlyRank[0..7]\<close> are "eight files / eight
  ranks as bitboards"; their declaration is not among the sources. Every use in the sources
  has a constant index in range.\<close>

definition onlyRank :: "nat \<Rightarrow> u64" where
  "onlyRank r = push_bit (8 * r) 0xFF"

definition onlyFile :: "nat \<Rightarrow> u64" where
  "onlyFile f = push_bit f 0x0101010101010101"

section \<open>The hash from scratch (util.go)\<close>

definition isWhitePieceAt :: "Board \<Rightarrow> u8 \<Rightarrow> bool" where
  "isWhitePieceAt b pos \<longleftrightarrow> Bbs b White AllP AND bitAt pos \<noteq> 0"

definition isBlackPieceAt :: "Board \<Rightarrow> u8 \<Rightarrow> bool" where
  "isBlackPieceAt b pos \<longleftrightarrow> Bbs b Black AllP AND bitAt pos \<noteq> 0"

text \<open>The row indices \<^verbatim>\<open>whitePiece-1\<close> and \<^verbatim>\<open>blackPiece+5\<close> are computed on \<^verbatim>\<open>uint8\<close> values: for
  \<^verbatim>\<open>Nothing\<close> the first wraps to 255, and the table access panics.\<close>

definition piece_u8 :: "Piece \<Rightarrow> u8" where
  "piece_u8 p = of_nat (piece_idx p)"

definition hashSquare :: "ZobristT \<Rightarrow> Board \<Rightarrow> u8 \<Rightarrow> u64 \<Rightarrow> u64 option" where
  "hashSquare z b i h =
     (if isWhitePieceAt b i then do {
        whitePiece \<leftarrow> PieceAt b i;
        x \<leftarrow> psz z (int (unat (piece_u8 whitePiece - 1))) i;
        Some (h XOR x)
      } else if isBlackPieceAt b i then do {
        blackPiece \<leftarrow> PieceAt b i;
        x \<leftarrow> psz z (int (unat (piece_u8 blackPiece + 5))) i;
        Some (h XOR x)
      } else Some h)"

fun hashSquares :: "ZobristT \<Rightarrow> Board \<Rightarrow> nat list \<Rightarrow> u64 \<Rightarrow> u64 option" where
  "hashSquares z b [] h = Some h"
| "hashSquares z b (i # rest) h = do {
     h \<leftarrow> hashSquare z b (of_nat i) h;
     hashSquares z b rest h
   }"

definition recomputeBoardHash :: "ZobristT \<Rightarrow> Board \<Rightarrow> u64 option" where
  "recomputeBoardHash z b =
     (let h = (0 :: u64);
          h = (if Colortomove b = White then h XOR whiteToMoveZobristC z else h);
          h = (if canCastle b White Kingside then h XOR castleRightsZobristC z White Kingside else h);
          h = (if canCastle b White Queenside then h XOR castleRightsZobristC z White Queenside else h);
          h = (if canCastle b Black Kingside then h XOR castleRightsZobristC z Black Kingside else h);
          h = (if canCastle b Black Queenside then h XOR castleRightsZobristC z Black Queenside else h);
          h = h XOR ucast (enpassant b)
      in hashSquares z b [0..<64] h)"

section \<open>Make and unmake (apply.go)\<close>

record BoardSaveT =
  Enpassant_s :: u8
  Halfmoveclock_s :: u8
  Castlerights_s :: "ColorT \<Rightarrow> u8"
  FromLoc :: u8
  ToLoc :: u8
  CaptureLoc :: u8
  FromPiece :: Piece
  ToPiece :: Piece
  CapturePiece :: Piece
  FromBb :: u64
  ToBb :: u64
  CaptureBb :: u64
  OurRookFrom :: u8
  OurRookTo :: u8
  OurRookBb :: u64
  OurAllBb :: u64
  OppAllBb :: u64
  Hash_s :: u64

text \<open>\<^verbatim>\<open>epDeltas\<close> holds \<^verbatim>\<open>int8\<close> values; additions of \<^verbatim>\<open>int8\<close> wrap like those of 8-bit words,
  and the conversions between \<^verbatim>\<open>uint8\<close> and \<^verbatim>\<open>int8\<close> keep the bits.\<close>

fun epDeltas :: "ColorT \<Rightarrow> u8" where
  "epDeltas White = - 8"
| "epDeltas Black = 8"

fun startingRankBbs :: "ColorT \<Rightarrow> u64" where
  "startingRankBbs White = onlyRank 0"
| "startingRankBbs Black = onlyRank 7"

fun piecesPawnZobristIndexes :: "ColorT \<Rightarrow> int" where
  "piecesPawnZobristIndexes White = 0"
| "piecesPawnZobristIndexes Black = 6"

definition Restore :: "BoardSaveT \<Rightarrow> Board \<Rightarrow> Board option" where
  "Restore bs b = do {
     let oppCol = Colortomove b;
     let ourCol = oppColor oppCol;
     let b = b\<lparr>Colortomove := ourCol\<rparr>;
     let b = b\<lparr>enpassant := Enpassant_s bs\<rparr>;
     let b = b\<lparr>Halfmoveclock := Halfmoveclock_s bs\<rparr>;
     let b = b\<lparr>Fullmoveno := Fullmoveno b - of_nat (color_idx ourCol)\<rparr>;
     let b = b\<lparr>castlerights := Castlerights_s bs\<rparr>;
     let b = bb_set (ourCol, ToPiece bs) (ToBb bs) b;
     b \<leftarrow> pieces_set (ToLoc bs) Nothing b;
     let b = bb_set (oppCol, CapturePiece bs) (CaptureBb bs) b;
     b \<leftarrow> pieces_set (CaptureLoc bs) (CapturePiece bs) b;
     let b = bb_set (ourCol, FromPiece bs) (FromBb bs) b;
     b \<leftarrow> pieces_set (FromLoc bs) (FromPiece bs) b;
     let b = bb_set (ourCol, Rook) (OurRookBb bs) b;
     maybeRook \<leftarrow> PieceAt b (OurRookTo bs);
     b \<leftarrow> pieces_set (OurRookTo bs) Nothing b;
     b \<leftarrow> pieces_set (OurRookFrom bs) maybeRook b;
     let b = bb_set (ourCol, AllP) (OurAllBb bs) b;
     let b = bb_set (oppCol, AllP) (OppAllBb bs) b;
     Some (b\<lparr>hash := Hash_s bs\<rparr>)
   }"

text \<open>\<^verbatim>\<open>IsCapture\<close> (util.go).\<close>

definition IsCapture :: "Move \<Rightarrow> Board \<Rightarrow> bool" where
  "IsCapture m b =
     (let toBitboard = bitAt (To m) in
      if toBitboard AND Bbs b White AllP \<noteq> 0 \<or> toBitboard AND Bbs b Black AllP \<noteq> 0 then True
      else
        (let fromBitboard = bitAt (From m);
             originIsPawn = (fromBitboard AND Bbs b White Pawn \<noteq> 0 \<or>
                             fromBitboard AND Bbs b Black Pawn \<noteq> 0)
         in originIsPawn \<and> toBitboard AND bitAt (enpassant b) \<noteq> 0))"

definition determinePieceType :: "Board \<Rightarrow> ColorT \<Rightarrow> u8 \<Rightarrow> (Piece \<times> bbptr) option" where
  "determinePieceType b col pos = do {
     piece \<leftarrow> PieceAt b pos;
     Some (piece, (col, piece))
   }"

text \<open>The rook-move test of both move paths: the branch taken strips one right at most.\<close>

definition stripRookMoveRights :: "ZobristT \<Rightarrow> u64 \<Rightarrow> u64 \<Rightarrow> Board \<Rightarrow> Board" where
  "stripRookMoveRights z fromBit ourStartingRankBb b =
     (if weCanCastle b Kingside \<and> fromBit AND onlyFile 7 \<noteq> 0 \<and> fromBit AND ourStartingRankBb \<noteq> 0
      then flipOurCastleRights z Kingside b
      else if weCanCastle b Queenside \<and> fromBit AND onlyFile 0 \<noteq> 0 \<and>
              fromBit AND ourStartingRankBb \<noteq> 0
      then flipOurCastleRights z Queenside b
      else b)"

definition stripKingMoveRights :: "ZobristT \<Rightarrow> Board \<Rightarrow> Board" where
  "stripKingMoveRights z b =
     (let b = (if weCanCastle b Kingside then flipOurCastleRights z Kingside b else b) in
      if weCanCastle b Queenside then flipOurCastleRights z Queenside b else b)"

definition stripRookCaptureRights :: "ZobristT \<Rightarrow> u8 \<Rightarrow> u64 \<Rightarrow> u64 \<Rightarrow> Board \<Rightarrow> Board" where
  "stripRookCaptureRights z toLoc toBit oppStartingRankBb b =
     (if unat toLoc mod 8 = 7 \<and> toBit AND oppStartingRankBb \<noteq> 0 \<and> oppCanCastle b Kingside
      then flipOppCastleRights z Kingside b
      else if unat toLoc mod 8 = 0 \<and> toBit AND oppStartingRankBb \<noteq> 0 \<and> oppCanCastle b Queenside
      then flipOppCastleRights z Queenside b
      else b)"


subsection \<open>MakeSimpleMove\<close>

text \<open>\<^verbatim>\<open>MakeSimpleMove\<close> is the fast path, for a move whose "simple" bit is set. Its body is
  split at the source's own blocks. Lines 134-161: the effects that depend on the kind of the
  moved piece (clock and en-passant square for a pawn, castle rights for a king or a rook).\<close>

definition simpleMoverEffects ::
  "ZobristT \<Rightarrow> ColorT \<Rightarrow> Piece \<Rightarrow> u8 \<Rightarrow> u8 \<Rightarrow> u64 \<Rightarrow> Board \<Rightarrow> Board" where
  "simpleMoverEffects z ourCol fromPiece fromLoc toLoc fromBit b =
     (if fromPiece = Pawn then
        (let b = b\<lparr>Halfmoveclock := 0\<rparr>;
             epDelta = epDeltas ourCol
         in if toLoc + 2 * epDelta = fromLoc then b\<lparr>enpassant := toLoc + epDelta\<rparr> else b)
      else if fromPiece = King then stripKingMoveRights z b
      else if fromPiece = Rook then stripRookMoveRights z fromBit (startingRankBbs ourCol) b
      else b)"

text \<open>Lines 166-187: the captured piece leaves the board.\<close>

definition simpleCapture ::
  "ZobristT \<Rightarrow> ColorT \<Rightarrow> Piece \<Rightarrow> u8 \<Rightarrow> u64 \<Rightarrow> Board \<Rightarrow> Board option" where
  "simpleCapture z oppCol capturePiece toLoc toBit b =
     (if capturePiece \<noteq> Nothing then do {
        let b = b\<lparr>Halfmoveclock := 0\<rparr>;
        b \<leftarrow> pieces_set toLoc Nothing b;
        let b = bb_set (oppCol, capturePiece) (Bbs b oppCol capturePiece AND NOT toBit) b;
        let b = bb_set (oppCol, AllP) (Bbs b oppCol AllP AND NOT toBit) b;
        h \<leftarrow> psz z (piecesPawnZobristIndexes oppCol + (int (piece_idx capturePiece) - 1)) toLoc;
        let b = hash_xor h b;
        Some (if capturePiece = Rook
              then stripRookCaptureRights z toLoc toBit (startingRankBbs oppCol) b else b)
      } else Some b)"

text \<open>Lines 189-202: the piece leaves its origin and lands on its destination.\<close>

definition simpleRelocate ::
  "ZobristT \<Rightarrow> ColorT \<Rightarrow> Piece \<Rightarrow> u8 \<Rightarrow> u8 \<Rightarrow> u64 \<Rightarrow> u64 \<Rightarrow> Board \<Rightarrow> Board option" where
  "simpleRelocate z ourCol fromPiece fromLoc toLoc fromBit toBit b = do {
     let ourPiecesPawnZobristIndex = piecesPawnZobristIndexes ourCol;
     b \<leftarrow> pieces_set fromLoc Nothing b;
     let b = bb_set (ourCol, fromPiece) (Bbs b ourCol fromPiece AND NOT fromBit) b;
     let b = bb_set (ourCol, AllP) (Bbs b ourCol AllP AND NOT fromBit) b;
     h \<leftarrow> psz z ((int (piece_idx fromPiece) - 1) + ourPiecesPawnZobristIndex) fromLoc;
     let b = hash_xor h b;
     b \<leftarrow> pieces_set toLoc fromPiece b;
     let b = bb_set (ourCol, fromPiece) (Bbs b ourCol fromPiece OR toBit) b;
     let b = bb_set (ourCol, AllP) (Bbs b ourCol AllP OR toBit) b;
     h \<leftarrow> psz z ((int (piece_idx fromPiece) - 1) + ourPiecesPawnZobristIndex) toLoc;
     Some (hash_xor h b)
   }"

definition MakeSimpleMove :: "ZobristT \<Rightarrow> Move \<Rightarrow> Board \<Rightarrow> (Board \<times> BoardSaveT) option" where
  "MakeSimpleMove z m b0 = do {
     let ourCol = Colortomove b0;
     let oppCol = oppColor ourCol;
     let b = b0\<lparr>Fullmoveno := Fullmoveno b0 + of_nat (color_idx ourCol)\<rparr>;
     let b = b\<lparr>Halfmoveclock := Halfmoveclock b + 1\<rparr>;
     let fromLoc = From m;
     let toLoc = To m;
     let fromBit = bitAt fromLoc;
     let toBit = bitAt toLoc;
     fromPiece \<leftarrow> PieceAt b fromLoc;
     let bs_FromBb = Bbs b ourCol fromPiece;
     capturePiece \<leftarrow> PieceAt b toLoc;
     let bs_CaptureBb = Bbs b oppCol capturePiece;
     let b = hash_xor (ucast (enpassant b)) b;
     let b = b\<lparr>enpassant := 0\<rparr>;
     let b = simpleMoverEffects z ourCol fromPiece fromLoc toLoc fromBit b;
     let b = hash_xor (ucast (enpassant b)) b;
     b \<leftarrow> simpleCapture z oppCol capturePiece toLoc toBit b;
     b \<leftarrow> simpleRelocate z ourCol fromPiece fromLoc toLoc fromBit toBit b;
     let b = b\<lparr>Colortomove := oppColor (Colortomove b)\<rparr>;
     let b = hash_xor (whiteToMoveZobristC z) b;
     Some (b, \<lparr>Enpassant_s = enpassant b0, Halfmoveclock_s = Halfmoveclock b0,
               Castlerights_s = castlerights b0,
               FromLoc = fromLoc, ToLoc = toLoc, CaptureLoc = toLoc,
               FromPiece = fromPiece, ToPiece = fromPiece, CapturePiece = capturePiece,
               FromBb = bs_FromBb, ToBb = bs_FromBb, CaptureBb = bs_CaptureBb,
               OurRookFrom = 0, OurRookTo = 0, OurRookBb = Bbs b0 ourCol Rook,
               OurAllBb = Bbs b0 ourCol AllP, OppAllBb = Bbs b0 oppCol AllP, Hash_s = hash b0\<rparr>)
   }"

subsection \<open>MakeSpecialMove\<close>

text \<open>\<^verbatim>\<open>MakeSpecialMove\<close> is the general path; its body is again split at the source's
  blocks. Lines 257-263: the halfmove clock.\<close>

definition updateHalfmoveClock :: "Move \<Rightarrow> Piece \<Rightarrow> Board \<Rightarrow> Board" where
  "updateHalfmoveClock m pieceType b =
     (if IsCapture m b \<or> pieceType = Pawn
      then b\<lparr>Halfmoveclock := 0\<rparr>
      else b\<lparr>Halfmoveclock := Halfmoveclock b + 1\<rparr>)"

text \<open>Lines 266-276: a king move of two files is a castle; \<^verbatim>\<open>castleStatus\<close> and the rook's
  squares. The first test is on \<^verbatim>\<open>uint8\<close> values, the second on \<^verbatim>\<open>int\<close> values.\<close>

definition castleRookSquares :: "Move \<Rightarrow> Piece \<Rightarrow> int \<times> u8 \<times> u8" where
  "castleRookSquares m pieceType =
     (if pieceType = King then
        (if To m - From m = 2 then (1, To m + 1, To m - 1)
         else if int (unat (To m)) - int (unat (From m)) = - 2 then (- 1, To m - 2, To m + 1)
         else (0, 0, 0))
      else (0, 0, 0))"

text \<open>Lines 297-307: the rook's part of a castle.\<close>

definition applyCastleRook :: "ZobristT \<Rightarrow> ColorT \<Rightarrow> int \<Rightarrow> u8 \<Rightarrow> u8 \<Rightarrow> Board \<Rightarrow> Board option" where
  "applyCastleRook z ourCol castleStatus oldRookLoc newRookLoc b =
     (if castleStatus \<noteq> 0 then do {
        b \<leftarrow> movePiece Rook Rook oldRookLoc newRookLoc (ourCol, Rook) (ourCol, Rook) (ourCol, AllP) b;
        h \<leftarrow> psz z (piecesPawnZobristIndexes ourCol + (int (piece_idx Rook) - 1)) oldRookLoc;
        let b = hash_xor h b;
        h \<leftarrow> psz z (piecesPawnZobristIndexes ourCol + (int (piece_idx Rook) - 1)) newRookLoc;
        Some (hash_xor h b)
      } else Some b)"

text \<open>Lines 309-321: an en-passant capture removes the pawn behind the en-passant square.\<close>

definition applyEpCapture :: "ZobristT \<Rightarrow> ColorT \<Rightarrow> bool \<Rightarrow> u8 \<Rightarrow> Board \<Rightarrow> Board option" where
  "applyEpCapture z oppCol isEp epOpponentPawnLocation b =
     (if isEp then do {
        b \<leftarrow> removePiece Pawn epOpponentPawnLocation (oppCol, Pawn) (oppCol, AllP) b;
        h \<leftarrow> psz z (piecesPawnZobristIndexes oppCol) epOpponentPawnLocation;
        Some (hash_xor h b)
      } else Some b)"

text \<open>Lines 322-327: the new en-passant square.\<close>

definition updateEnpassant :: "Move \<Rightarrow> Piece \<Rightarrow> u8 \<Rightarrow> Board \<Rightarrow> Board" where
  "updateEnpassant m pieceType epDelta b =
     (if pieceType = Pawn \<and> To m + 2 * epDelta = From m
      then b\<lparr>enpassant := To m + epDelta\<rparr>
      else b\<lparr>enpassant := 0\<rparr>)"

text \<open>Lines 329-348: the bitboard and the kind of the piece that lands.\<close>

definition promotionTarget :: "Move \<Rightarrow> ColorT \<Rightarrow> Piece \<Rightarrow> bbptr \<Rightarrow> bbptr \<times> Piece" where
  "promotionTarget m ourCol pieceType pieceTypeBitboard =
     (case Promote m of
        Queen \<Rightarrow> ((ourCol, Queen), Queen)
      | Knight \<Rightarrow> ((ourCol, Knight), Knight)
      | Rook \<Rightarrow> ((ourCol, Rook), Rook)
      | Bishop \<Rightarrow> ((ourCol, Bishop), Bishop)
      | _ \<Rightarrow> (pieceTypeBitboard, pieceType))"

text \<open>Lines 354-362: an ordinary capture.\<close>

definition removeCaptured ::
  "ZobristT \<Rightarrow> ColorT \<Rightarrow> Piece \<Rightarrow> bbptr \<Rightarrow> u8 \<Rightarrow> Board \<Rightarrow> Board option" where
  "removeCaptured z oppCol capturedPieceType capturedBitboard toLoc b =
     (if capturedPieceType \<noteq> Nothing then do {
        b \<leftarrow> removePiece capturedPieceType toLoc capturedBitboard (oppCol, AllP) b;
        h \<leftarrow> psz z (piecesPawnZobristIndexes oppCol + (int (piece_idx capturedPieceType) - 1)) toLoc;
        Some (hash_xor h b)
      } else Some b)"

text \<open>Lines 363-365: the move itself.\<close>

definition relocate ::
  "ZobristT \<Rightarrow> ColorT \<Rightarrow> Piece \<Rightarrow> Piece \<Rightarrow> u8 \<Rightarrow> u8 \<Rightarrow> bbptr \<Rightarrow> bbptr \<Rightarrow> Board \<Rightarrow> Board option" where
  "relocate z ourCol pieceType promotedToPieceType fromLoc toLoc pieceTypeBitboard destTypeBitboard b = do {
     b \<leftarrow> movePiece pieceType promotedToPieceType fromLoc toLoc
            pieceTypeBitboard destTypeBitboard (ourCol, AllP) b;
     h \<leftarrow> psz z ((int (piece_idx pieceType) - 1) + piecesPawnZobristIndexes ourCol) fromLoc;
     let b = hash_xor h b;
     h \<leftarrow> psz z ((int (piece_idx promotedToPieceType) - 1) + piecesPawnZobristIndexes ourCol) toLoc;
     Some (hash_xor h b)
   }"

text \<open>Lines 375-381: the side to move and the en-passant part of the hash.\<close>

definition finishMove :: "ZobristT \<Rightarrow> u8 \<Rightarrow> Board \<Rightarrow> Board" where
  "finishMove z oldEpCaptureSquare b =
     (let b = hash_xor (whiteToMoveZobristC z) b;
          b = b\<lparr>Colortomove := oppColor (Colortomove b)\<rparr>;
          b = hash_xor (ucast oldEpCaptureSquare) b
      in hash_xor (ucast (enpassant b)) b)"

text \<open>The fields of the save structure are assembled at the end; those the source assigns
  twice (\<^verbatim>\<open>CaptureLoc\<close>, \<^verbatim>\<open>CapturePiece\<close>, \<^verbatim>\<open>CaptureBb\<close>, the rook squares) take their last
  value.\<close>

definition MakeSpecialMove :: "ZobristT \<Rightarrow> Move \<Rightarrow> Board \<Rightarrow> (Board \<times> BoardSaveT) option" where
  "MakeSpecialMove z m b0 = do {
     let ourCol = Colortomove b0;
     let oppCol = oppColor ourCol;
     let epDelta = epDeltas ourCol;
     let b = b0\<lparr>Fullmoveno := Fullmoveno b0 + of_nat (color_idx ourCol)\<rparr>;
     (pieceType, pieceTypeBitboard) \<leftarrow> determinePieceType b ourCol (From m);
     let bs_FromBb = Bbs b ourCol pieceType;
     let b = updateHalfmoveClock m pieceType b;
     let (castleStatus, oldRookLoc, newRookLoc) = castleRookSquares m pieceType;
     let b = (if pieceType = King then stripKingMoveRights z b else b);
     let b = (if pieceType = Rook
              then stripRookMoveRights z (bitAt (From m)) (startingRankBbs ourCol) b else b);
     b \<leftarrow> applyCastleRook z ourCol castleStatus oldRookLoc newRookLoc b;
     let oldEpCaptureSquare = enpassant b;
     let isEp = (pieceType = Pawn \<and> To m = oldEpCaptureSquare \<and> oldEpCaptureSquare \<noteq> 0);
     let epOpponentPawnLocation = oldEpCaptureSquare + epDelta;
     let ep_CaptureBb = Bbs b oppCol Pawn;
     b \<leftarrow> applyEpCapture z oppCol isEp epOpponentPawnLocation b;
     let b = updateEnpassant m pieceType epDelta b;
     let (destTypeBitboard, promotedToPieceType) =
           promotionTarget m ourCol pieceType pieceTypeBitboard;
     let bs_ToBb = Bbs b ourCol promotedToPieceType;
     (capturedPieceType, capturedBitboard) \<leftarrow> determinePieceType b oppCol (To m);
     let cap_CaptureBb = Bbs b oppCol capturedPieceType;
     b \<leftarrow> removeCaptured z oppCol capturedPieceType capturedBitboard (To m) b;
     b \<leftarrow> relocate z ourCol pieceType promotedToPieceType (From m) (To m)
            pieceTypeBitboard destTypeBitboard b;
     let b = (if capturedPieceType = Rook
              then stripRookCaptureRights z (To m) (bitAt (To m)) (startingRankBbs oppCol) b
              else b);
     let b = finishMove z oldEpCaptureSquare b;
     Some (b, \<lparr>Enpassant_s = enpassant b0, Halfmoveclock_s = Halfmoveclock b0,
               Castlerights_s = castlerights b0,
               FromLoc = From m, ToLoc = To m,
               CaptureLoc = (if isEp then epOpponentPawnLocation else To m),
               FromPiece = pieceType, ToPiece = promotedToPieceType,
               CapturePiece = (if capturedPieceType \<noteq> Nothing then capturedPieceType
                               else if isEp then Pawn else Nothing),
               FromBb = bs_FromBb, ToBb = bs_ToBb,
               CaptureBb = (if capturedPieceType \<noteq> Nothing then cap_CaptureBb
                            else if isEp then ep_CaptureBb else 0),
               OurRookFrom = (if castleStatus \<noteq> 0 then oldRookLoc else 0),
               OurRookTo = (if castleStatus \<noteq> 0 then newRookLoc else 0),
               OurRookBb = Bbs b0 ourCol Rook,
               OurAllBb = Bbs b0 ourCol AllP, OppAllBb = Bbs b0 oppCol AllP, Hash_s = hash b0\<rparr>)
   }"

definition MakeMove :: "ZobristT \<Rightarrow> Move \<Rightarrow> Board \<Rightarrow> (Board \<times> BoardSaveT) option" where
  "MakeMove z m b = (if IsSimple m then MakeSimpleMove z m b else MakeSpecialMove z m b)"

section \<open>Bit primitives and tables of the move generator\<close>

text \<open>\<^verbatim>\<open>bits.TrailingZeros64\<close>: the index of the lowest set bit, 64 for 0.\<close>

function TrailingZeros64 :: "u64 \<Rightarrow> nat" where
  "TrailingZeros64 x =
     (if x = 0 then 64 else if bit x 0 then 0 else Suc (TrailingZeros64 (drop_bit 1 x)))"
  by pat_completeness auto
termination
proof (relation "measure unat")
  show "wf (measure unat)" by simp
next
  fix x :: u64 assume "x \<noteq> 0" "\<not> bit x 0"
  then have "0 < unat x" by (simp add: unat_gt_0)
  then have "unat x div 2 < unat x" by simp
  moreover have "unat (drop_bit 1 x) = unat x div 2"
    unfolding unat_drop_bit_eq by (simp add: drop_bit_eq_div)
  ultimately show "(drop_bit 1 x, x) \<in> measure unat"
    by simp
qed

declare TrailingZeros64.simps [simp del]

lemma pop_lowest_less: "x \<noteq> 0 \<Longrightarrow> unat (x AND (x - 1)) < unat (x::u64)"
proof -
  assume nz: "x \<noteq> 0"
  have "x AND (x - 1) \<le> x - 1" by (rule word_and_le1)
  moreover have "x - 1 < x" using nz by (simp add: word_less_nat_alt unat_minus_one unat_gt_0)
  ultimately show ?thesis by (simp add: word_less_nat_alt word_le_nat_alt)
qed

text \<open>The loop \<^verbatim>\<open>for x != 0 { t := bits.TrailingZeros64(x); x &= x - 1; ... }\<close> visits the set
  bits of \<open>x\<close> from the lowest up; \<open>bits_of x\<close> is the list of the values \<open>t\<close> takes.\<close>

function bits_of :: "u64 \<Rightarrow> nat list" where
  "bits_of x = (if x = 0 then [] else TrailingZeros64 x # bits_of (x AND (x - 1)))"
  by pat_completeness auto
termination
  by (relation "measure unat") (simp_all add: pop_lowest_less)

declare bits_of.simps [simp del]

text \<open>\<^verbatim>\<open>bits.OnesCount64\<close>.\<close>

definition OnesCount64 :: "u64 \<Rightarrow> int" where
  "OnesCount64 x = int (length (bits_of x))"

text \<open>Modelled from the spec: \<^verbatim>\<open>everything\<close>, the destination mask that allows every square,
  is declared in a file that is not among the sources.\<close>

definition everything :: u64 where
  "everything = - 1"

text \<open>Modelled from the spec: \<^verbatim>\<open>knightMasks[64]\<close> holds the "squares a knight on s attacks" and
  \<^verbatim>\<open>kingMasks[64]\<close> the "squares a king on s attacks (one step in 8 directions)"; the tables
  are not among the sources. \<open>step_mask s offs\<close> collects the squares of the board that lie
  at one of the (file, rank) offsets \<open>offs\<close> from square \<open>s\<close>.\<close>

definition on_board :: "int \<Rightarrow> int \<Rightarrow> bool" where
  "on_board f r \<longleftrightarrow> 0 \<le> f \<and> f < 8 \<and> 0 \<le> r \<and> r < 8"

definition sq_bit :: "int \<Rightarrow> int \<Rightarrow> u64" where
  "sq_bit f r = push_bit (nat (r * 8 + f)) 1"

fun step_mask :: "nat \<Rightarrow> (int \<times> int) list \<Rightarrow> u64" where
  "step_mask s [] = 0"
| "step_mask s ((df, dr) # offs) =
     (if on_board (int (s mod 8) + df) (int (s div 8) + dr)
      then sq_bit (int (s mod 8) + df) (int (s div 8) + dr) OR step_mask s offs
      else step_mask s offs)"

definition knightMasks :: "nat \<Rightarrow> u64" where
  "knightMasks s =
     step_mask s [(1, 2), (2, 1), (2, - 1), (1, - 2), (- 1, - 2), (- 2, - 1), (- 2, 1), (- 1, 2)]"

definition kingMasks :: "nat \<Rightarrow> u64" where
  "kingMasks s =
     step_mask s [(0, 1), (1, 1), (1, 0), (1, - 1), (0, - 1), (- 1, - 1), (- 1, 0), (- 1, 1)]"

text \<open>Modelled from the spec: the magic tables (\<^verbatim>\<open>magicRookBlockerMasks\<close>, \<^verbatim>\<open>magicNumberRook\<close>,
  \<^verbatim>\<open>magicRookShifts\<close>, \<^verbatim>\<open>magicMovesRook\<close> and their bishop counterparts) are not among the
  sources. By the spec the blocker mask of a square holds the "rays from s to (but not
  including) the edge squares", and the attack table, indexed by
  \<^verbatim>\<open>(blockers * magic) >> shift\<close>, "returns the attack bitboard for that occupancy, including
  the first blocker square on each ray and all empty squares up to it, excluding squares
  beyond the blocker". The model walks the rays: \<open>ray_attacks n f r df dr occ\<close> goes at most
  \<open>n\<close> steps from (file \<open>f\<close>, rank \<open>r\<close>) in direction \<open>(df, dr)\<close>, and stops behind the first
  square of \<open>occ\<close> or at the edge of the board; \<open>ray_inner\<close> stops in front of the edge square.
  The lookup by multiplication and shift is the table access \<open>magicMoves\<close> of the blockers.\<close>

fun ray_attacks :: "nat \<Rightarrow> int \<Rightarrow> int \<Rightarrow> int \<Rightarrow> int \<Rightarrow> u64 \<Rightarrow> u64" where
  "ray_attacks 0 f r df dr occ = 0"
| "ray_attacks (Suc n) f r df dr occ =
     (if on_board (f + df) (r + dr) then
        (if sq_bit (f + df) (r + dr) AND occ \<noteq> 0 then sq_bit (f + df) (r + dr)
         else sq_bit (f + df) (r + dr) OR ray_attacks n (f + df) (r + dr) df dr occ)
      else 0)"

fun ray_inner :: "nat \<Rightarrow> int \<Rightarrow> int \<Rightarrow> int \<Rightarrow> int \<Rightarrow> u64" where
  "ray_inner 0 f r df dr = 0"
| "ray_inner (Suc n) f r df dr =
     (if on_board (f + df) (r + dr) \<and> on_board (f + 2 * df) (r + 2 * dr)
      then sq_bit (f + df) (r + dr) OR ray_inner n (f + df) (r + dr) df dr
      else 0)"

definition rook_dirs :: "(int \<times> int) list" where
  "rook_dirs = [(0, 1), (1, 0), (0, - 1), (- 1, 0)]"

definition bishop_dirs :: "(int \<times> int) list" where
  "bishop_dirs = [(1, 1), (1, - 1), (- 1, - 1), (- 1, 1)]"

definition slider_attacks :: "(int \<times> int) list \<Rightarrow> nat \<Rightarrow> u64 \<Rightarrow> u64" where
  "slider_attacks dirs s occ =
     fold (\<lambda>(df, dr) acc. acc OR ray_attacks 7 (int (s mod 8)) (int (s div 8)) df dr occ) dirs 0"

definition slider_mask :: "(int \<times> int) list \<Rightarrow> nat \<Rightarrow> u64" where
  "slider_mask dirs s =
     fold (\<lambda>(df, dr) acc. acc OR ray_inner 7 (int (s mod 8)) (int (s div 8)) df dr) dirs 0"

definition magicRookBlockerMasks :: "nat \<Rightarrow> u64" where
  "magicRookBlockerMasks s = slider_mask rook_dirs s"

definition magicBishopBlockerMasks :: "nat \<Rightarrow> u64" where
  "magicBishopBlockerMasks s = slider_mask bishop_dirs s"

definition magicMovesRook :: "nat \<Rightarrow> u64 \<Rightarrow> u64" where
  "magicMovesRook s blockers = slider_attacks rook_dirs s blockers"

definition magicMovesBishop :: "nat \<Rightarrow> u64 \<Rightarrow> u64" where
  "magicMovesBishop s blockers = slider_attacks bishop_dirs s blockers"

text \<open>\<^verbatim>\<open>CalculateRookMoveBitboard\<close> and \<^verbatim>\<open>CalculateBishopMoveBitboard\<close>. The tables have 64
  rows: a square of 64 or more panics in the source. It can only come from
  \<^verbatim>\<open>TrailingZeros64\<close> of an empty king bitboard, and the generator functions below test the
  king square before they reach a table.\<close>

definition CalculateRookMoveBitboard :: "nat \<Rightarrow> u64 \<Rightarrow> u64" where
  "CalculateRookMoveBitboard currRook allPieces =
     (let blockers = magicRookBlockerMasks currRook AND allPieces
      in magicMovesRook currRook blockers)"

definition CalculateBishopMoveBitboard :: "nat \<Rightarrow> u64 \<Rightarrow> u64" where
  "CalculateBishopMoveBitboard currBishop allPieces =
     (let blockers = magicBishopBlockerMasks currBishop AND allPieces
      in magicMovesBishop currBishop blockers)"


subsection \<open>Single-precision arithmetic\<close>

text \<open>The diagonal pin test of the generator computes two slopes in \<^verbatim>\<open>float32\<close>. The model
  of a \<^verbatim>\<open>float32\<close> value is a rational, an infinity with its sign (\<open>True\<close> for the negative
  one) or NaN; every operation rounds its exact result to the nearest value with a 24-bit
  significand, ties to even (IEEE 754 binary32, the exponent of the unit in the last place
  not below -149). The sign of a zero is not kept: the only zero divisors of the generator
  are differences \<open>x - x\<close>, which are +0.\<close>

datatype f32 = Finite rat | Infinity bool | NaN

fun exp_search :: "nat \<Rightarrow> int \<Rightarrow> rat \<Rightarrow> int" where
  "exp_search 0 e a = e"
| "exp_search (Suc n) e a = (if 2 powi e \<le> a then e else exp_search n (e - 1) a)"

definition f32_exponent :: "rat \<Rightarrow> int" where
  "f32_exponent a = exp_search 253 127 a"

definition round_half_even :: "rat \<Rightarrow> int" where
  "round_half_even t =
     (let f = \<lfloor>t\<rfloor>; d = t - of_int f
      in if d < 1 / 2 then f else if 1 / 2 < d then f + 1 else if even f then f else f + 1)"

definition f32_round :: "rat \<Rightarrow> f32" where
  "f32_round x =
     (let u = 2 powi (f32_exponent \<bar>x\<bar> - 23);
          r = of_int (round_half_even (x / u)) * u
      in if 2 powi 128 \<le> \<bar>r\<bar> then Infinity (x < 0) else Finite r)"

definition f32_of_nat :: "nat \<Rightarrow> f32" where
  "f32_of_nat n = f32_round (of_nat n)"

fun f32_sub :: "f32 \<Rightarrow> f32 \<Rightarrow> f32" where
  "f32_sub (Finite a) (Finite b) = f32_round (a - b)"
| "f32_sub NaN _ = NaN"
| "f32_sub _ NaN = NaN"
| "f32_sub (Infinity s) (Infinity t) = (if s = t then NaN else Infinity s)"
| "f32_sub (Infinity s) (Finite b) = Infinity s"
| "f32_sub (Finite a) (Infinity t) = Infinity (\<not> t)"

fun f32_div :: "f32 \<Rightarrow> f32 \<Rightarrow> f32" where
  "f32_div (Finite a) (Finite b) =
     (if b = 0 then (if a = 0 then NaN else Infinity (a < 0)) else f32_round (a / b))"
| "f32_div NaN _ = NaN"
| "f32_div _ NaN = NaN"
| "f32_div (Infinity s) (Infinity t) = NaN"
| "f32_div (Infinity s) (Finite b) = Infinity (s \<noteq> (b < 0))"
| "f32_div (Finite a) (Infinity t) = Finite 0"

text \<open>The comparison \<^verbatim>\<open>!=\<close>: NaN differs from every value, itself included.\<close>

definition f32_ne :: "f32 \<Rightarrow> f32 \<Rightarrow> bool" where
  "f32_ne x y \<longleftrightarrow> x = NaN \<or> y = NaN \<or> x \<noteq> y"

section \<open>Attack queries (move generator)\<close>

text \<open>\<^verbatim>\<open>countAttacks\<close>. The first table access, \<^verbatim>\<open>knightMasks[origin]\<close>, panics for a square
  of 64 or more. The sums \<^verbatim>\<open>origin + 7\<close>, \<^verbatim>\<open>origin - 7\<close>, ... are \<^verbatim>\<open>uint8\<close> sums and wrap; the
  tests \<^verbatim>\<open>origin-7 >= 0\<close> and \<^verbatim>\<open>origin-9 >= 0\<close> on \<^verbatim>\<open>uint8\<close> values are always true.\<close>

definition raysToAttackers :: "(nat \<Rightarrow> u64 \<Rightarrow> u64) \<Rightarrow> u64 \<Rightarrow> u64 \<Rightarrow> u64 \<Rightarrow> u64 \<Rightarrow> u64" where
  "raysToAttackers calc allPieces origin_rays attackers blockerDestinations =
     fold (\<lambda>curr_attacker bd. bd OR (calc curr_attacker allPieces AND origin_rays))
          (bits_of attackers) blockerDestinations"

definition countAttacks :: "Board \<Rightarrow> bool \<Rightarrow> u8 \<Rightarrow> int \<Rightarrow> (int \<times> u64) option" where
  "countAttacks b byBlack origin abortEarly =
     (if 64 \<le> unat origin then None
      else
        (let oppPieces = Bbs b (if byBlack then Black else White);
             allPieces = Bbs b White AllP OR Bbs b Black AllP;
             knight_attackers = knightMasks (unat origin) AND oppPieces Knight;
             numAttacks = OnesCount64 knight_attackers;
             blockerDestinations = knight_attackers
         in if abortEarly \<le> numAttacks then Some (numAttacks, blockerDestinations)
         else
          (let diag_candidates = magicBishopBlockerMasks (unat origin) AND allPieces;
               origin_diag_rays = magicMovesBishop (unat origin) diag_candidates;
               diag_attackers = origin_diag_rays AND (oppPieces Bishop OR oppPieces Queen);
               numAttacks = numAttacks + OnesCount64 diag_attackers;
               blockerDestinations = blockerDestinations OR diag_attackers
           in if abortEarly \<le> numAttacks then Some (numAttacks, blockerDestinations)
           else
            (let blockerDestinations =
                   raysToAttackers CalculateBishopMoveBitboard allPieces origin_diag_rays
                     diag_attackers blockerDestinations;
                 ortho_candidates = magicRookBlockerMasks (unat origin) AND allPieces;
                 origin_ortho_rays = magicMovesRook (unat origin) ortho_candidates;
                 ortho_attackers = origin_ortho_rays AND (oppPieces Rook OR oppPieces Queen);
                 numAttacks = numAttacks + OnesCount64 ortho_attackers;
                 blockerDestinations = blockerDestinations OR ortho_attackers
             in if abortEarly \<le> numAttacks then Some (numAttacks, blockerDestinations)
             else
              (let blockerDestinations =
                     raysToAttackers CalculateRookMoveBitboard allPieces origin_ortho_rays
                       ortho_attackers blockerDestinations;
                   king_attackers = kingMasks (unat origin) AND oppPieces King;
                   numAttacks = numAttacks + OnesCount64 king_attackers;
                   blockerDestinations = blockerDestinations OR king_attackers
               in if abortEarly \<le> numAttacks then Some (numAttacks, blockerDestinations)
               else
                (let pawn_attackers_mask =
                       (if byBlack then
                          (bitAt (origin + 7) AND NOT (onlyFile 7)) OR
                          (bitAt (origin + 9) AND NOT (onlyFile 0))
                        else
                          (bitAt (origin - 7) AND NOT (onlyFile 0)) OR
                          (bitAt (origin - 9) AND NOT (onlyFile 7)));
                     pawn_attackers_mask = pawn_attackers_mask AND oppPieces Pawn;
                     numAttacks = numAttacks + OnesCount64 pawn_attackers_mask;
                     blockerDestinations = blockerDestinations OR pawn_attackers_mask
                 in Some (numAttacks, blockerDestinations)))))))"

definition UnderDirectAttack :: "Board \<Rightarrow> bool \<Rightarrow> u8 \<Rightarrow> bool option" where
  "UnderDirectAttack b byBlack origin = do {
     (count, _) \<leftarrow> countAttacks b byBlack origin 1;
     Some (1 \<le> count)
   }"

fun anyUnderDirectAttack :: "Board \<Rightarrow> bool \<Rightarrow> u8 list \<Rightarrow> bool option" where
  "anyUnderDirectAttack b byBlack [] = Some False"
| "anyUnderDirectAttack b byBlack (v # squares) = do {
     a \<leftarrow> UnderDirectAttack b byBlack v;
     if a then Some True else anyUnderDirectAttack b byBlack squares
   }"

definition OurKingInCheck :: "Board \<Rightarrow> bool option" where
  "OurKingInCheck b = do {
     let ourCol = Colortomove b;
     let origin = (of_nat (TrailingZeros64 (Bbs b ourCol King)) :: u8);
     (count, _) \<leftarrow> countAttacks b (Colortomove b = White) origin 1;
     Some (1 \<le> count)
   }"


section \<open>Move generation\<close>

text \<open>Every generator function of the source appends to the move list it is handed; the
  model of each returns the moves it appends, in order, and the caller concatenates.
  The two functions that edit the bitboards while they run (\<^verbatim>\<open>kingPushes\<close>, \<^verbatim>\<open>pawnCaptures\<close>)
  also return the board they leave behind.\<close>

fun promoRankBbs :: "ColorT \<Rightarrow> u64" where
  "promoRankBbs White = onlyRank 7"
| "promoRankBbs Black = onlyRank 0"

fun doublePushRankBBs :: "ColorT \<Rightarrow> u64" where
  "doublePushRankBBs White = onlyRank 3"
| "doublePushRankBBs Black = onlyRank 4"

fun pawnPushDirections :: "ColorT \<Rightarrow> int" where
  "pawnPushDirections White = 1"
| "pawnPushDirections Black = - 1"

fun oneRankBacks :: "ColorT \<Rightarrow> int" where
  "oneRankBacks White = - 8"
| "oneRankBacks Black = 8"

text \<open>\<^verbatim>\<open>Square(x)\<close> of an \<^verbatim>\<open>int\<close>: the conversion to \<^verbatim>\<open>uint8\<close> keeps the low 8 bits.\<close>

definition Square :: "int \<Rightarrow> u8" where
  "Square x = word_of_int x"

definition genMovesFromTargets :: "u8 \<Rightarrow> u64 \<Rightarrow> Move list" where
  "genMovesFromTargets origin targets =
     map (\<lambda>target. Setto (Square (int target)) (Setfrom origin 0)) (bits_of targets)"

text \<open>The promotion loop \<^verbatim>\<open>for i := Piece(Knight); i <= Queen; i++\<close>.\<close>

definition promoPieces :: "Piece list" where
  "promoPieces = [Knight, Bishop, Rook, Queen]"

subsection \<open>Pinned pieces\<close>

text \<open>One round of the first loop of \<^verbatim>\<open>generatePinnedMoves\<close> (an opposing rook or queen on
  \<open>currRookIdx\<close>): the moves it appends and the bits it adds to \<^verbatim>\<open>allPinnedPieces\<close>.\<close>

definition pinnedOrthoStep :: "Board \<Rightarrow> u64 \<Rightarrow> nat \<Rightarrow> u64 \<Rightarrow> nat \<Rightarrow> Move list \<times> u64" where
  "pinnedOrthoStep b allowDest ourKingIdx kingOrthoTargets currRookIdx =
     (let ourCol = Colortomove b;
          ourPieces = Bbs b ourCol;
          oppPieces = Bbs b (oppColor ourCol);
          pawnPushDirection = pawnPushDirections ourCol;
          doublePushRank = doublePushRankBBs ourCol;
          allPieces = oppPieces AllP OR ourPieces AllP;
          rookTargets = CalculateRookMoveBitboard currRookIdx allPieces AND NOT (oppPieces AllP);
          pinnedPiece = rookTargets AND kingOrthoTargets AND ourPieces AllP
      in if pinnedPiece = 0 then ([], 0)
      else
       (let pinnedPieceIdx = TrailingZeros64 pinnedPiece;
            sameRank = (pinnedPieceIdx div 8 = ourKingIdx div 8 \<and>
                        pinnedPieceIdx div 8 = currRookIdx div 8);
            sameFile = (pinnedPieceIdx mod 8 = ourKingIdx mod 8 \<and>
                        pinnedPieceIdx mod 8 = currRookIdx mod 8)
        in if \<not> sameRank \<and> \<not> sameFile then ([], 0)
        else if pinnedPiece AND ourPieces Pawn \<noteq> 0 then
          (if sameFile then
             (let pawnTargets =
                    bitAt (Square (int pinnedPieceIdx + 8 * pawnPushDirection)) AND NOT allPieces;
                  pawnTargets =
                    (if pawnTargets \<noteq> 0
                     then pawnTargets OR
                          (bitAt (Square (int pinnedPieceIdx + 16 * pawnPushDirection))
                             AND NOT allPieces AND doublePushRank)
                     else pawnTargets);
                  pawnTargets = pawnTargets AND allowDest
              in (genMovesFromTargets (Square (int pinnedPieceIdx)) pawnTargets, pinnedPiece))
           else ([], pinnedPiece))
        else if pinnedPiece AND ourPieces Rook = 0 \<and> pinnedPiece AND ourPieces Queen = 0
        then ([], pinnedPiece)
        else
          (let pinnedPieceAllMoves =
                 CalculateRookMoveBitboard pinnedPieceIdx allPieces AND NOT (ourPieces AllP);
               pinnedTargets =
                 pinnedPieceAllMoves AND
                 (rookTargets OR kingOrthoTargets OR bitAt (Square (int currRookIdx)));
               pinnedTargets = pinnedTargets AND allowDest
           in (genMovesFromTargets (Square (int pinnedPieceIdx)) pinnedTargets, pinnedPiece))))"

text \<open>The two slopes of the diagonal test, computed as the source writes them: the square
  index itself is divided by 8 in \<^verbatim>\<open>float32\<close>, the file is the index modulo 8.\<close>

definition slope :: "nat \<Rightarrow> nat \<Rightarrow> f32" where
  "slope sq bishop =
     f32_div (f32_sub (f32_div (f32_of_nat sq) (f32_of_nat 8))
                      (f32_div (f32_of_nat bishop) (f32_of_nat 8)))
             (f32_sub (f32_of_nat (sq mod 8)) (f32_of_nat (bishop mod 8)))"

text \<open>One round of the second loop (an opposing bishop or queen on \<open>currBishopIdx\<close>).\<close>

definition pinnedDiagStep :: "Board \<Rightarrow> u64 \<Rightarrow> nat \<Rightarrow> u64 \<Rightarrow> nat \<Rightarrow> Move list \<times> u64" where
  "pinnedDiagStep b allowDest ourKingIdx kingDiagTargets currBishopIdx =
     (let ourCol = Colortomove b;
          ourPieces = Bbs b ourCol;
          oppPieces = Bbs b (oppColor ourCol);
          ourPromotionRank = promoRankBbs ourCol;
          allPieces = oppPieces AllP OR ourPieces AllP;
          bishopTargets =
            CalculateBishopMoveBitboard currBishopIdx allPieces AND NOT (oppPieces AllP);
          pinnedPiece = bishopTargets AND kingDiagTargets AND ourPieces AllP
      in if pinnedPiece = 0 then ([], 0)
      else
       (let pinnedPieceIdx = TrailingZeros64 pinnedPiece;
            bishopToPinnedSlope = slope pinnedPieceIdx currBishopIdx;
            bishopToKingSlope = slope ourKingIdx currBishopIdx
        in if f32_ne bishopToPinnedSlope bishopToKingSlope then ([], 0)
        else if pinnedPiece AND ourPieces Pawn \<noteq> 0 then
          (if bitAt (Square (int currBishopIdx)) AND allowDest \<noteq> 0 then
             (if (Colortomove b = White \<and> pinnedPieceIdx div 8 + 1 = currBishopIdx div 8) \<or>
                 (Colortomove b = Black \<and> pinnedPieceIdx div 8 = currBishopIdx div 8 + 1)
              then
                (if bitAt (Square (int currBishopIdx)) AND ourPromotionRank \<noteq> 0
                 then (map (\<lambda>i. Setpromote i (Setto (Square (int currBishopIdx))
                                    (Setfrom (Square (int pinnedPieceIdx)) 0))) promoPieces,
                       pinnedPiece)
                 else ([Setto (Square (int currBishopIdx))
                          (Setfrom (Square (int pinnedPieceIdx)) 0)], pinnedPiece))
              else ([], pinnedPiece))
           else ([], pinnedPiece))
        else if pinnedPiece AND ourPieces Bishop = 0 \<and> pinnedPiece AND ourPieces Queen = 0
        then ([], pinnedPiece)
        else
          (let pinnedPieceAllMoves =
                 CalculateBishopMoveBitboard pinnedPieceIdx allPieces AND NOT (ourPieces AllP);
               pinnedTargets =
                 pinnedPieceAllMoves AND
                 (bishopTargets OR kingDiagTargets OR bitAt (Square (int currBishopIdx)));
               pinnedTargets = pinnedTargets AND allowDest
           in (genMovesFromTargets (Square (int pinnedPieceIdx)) pinnedTargets, pinnedPiece))))"

text \<open>The loops collect the moves in order and OR the pinned bits together.\<close>

definition collectSteps :: "(nat \<Rightarrow> Move list \<times> u64) \<Rightarrow> nat list \<Rightarrow> Move list \<times> u64" where
  "collectSteps step idxs =
     fold (\<lambda>i (moves, pinned). (moves @ fst (step i), pinned OR snd (step i))) idxs ([], 0)"

text \<open>\<^verbatim>\<open>generatePinnedMoves\<close>. The king square indexes the magic tables first: a board
  without a king of the side to move panics there.\<close>

definition generatePinnedMoves :: "Board \<Rightarrow> u64 \<Rightarrow> (Move list \<times> u64) option" where
  "generatePinnedMoves b allowDest =
     (let ourCol = Colortomove b;
          ourPieces = Bbs b ourCol;
          oppPieces = Bbs b (oppColor ourCol);
          ourKingIdx = unat (of_nat (TrailingZeros64 (ourPieces King)) :: u8);
          allPieces = oppPieces AllP OR ourPieces AllP
      in if 64 \<le> ourKingIdx then None
      else
       (let kingOrthoTargets = CalculateRookMoveBitboard ourKingIdx allPieces;
            oppRooks = oppPieces Rook OR oppPieces Queen;
            (orthoMoves, orthoPinned) =
              collectSteps (pinnedOrthoStep b allowDest ourKingIdx kingOrthoTargets)
                (bits_of oppRooks);
            kingDiagTargets = CalculateBishopMoveBitboard ourKingIdx allPieces;
            oppBishops = oppPieces Bishop OR oppPieces Queen;
            (diagMoves, diagPinned) =
              collectSteps (pinnedDiagStep b allowDest ourKingIdx kingDiagTargets)
                (bits_of oppBishops)
        in Some (orthoMoves @ diagMoves, orthoPinned OR diagPinned)))"

subsection \<open>Pawns\<close>

definition pawnPushBitboards :: "Board \<Rightarrow> u64 \<Rightarrow> u64 \<times> u64" where
  "pawnPushBitboards b nonpinned =
     (let free = NOT (Bbs b White AllP) AND NOT (Bbs b Black AllP);
          ourPawns = Bbs b (Colortomove b) Pawn
      in if Colortomove b = White then
           (let movableWhitePawns = ourPawns AND nonpinned;
                targets = push_bit 8 movableWhitePawns AND free;
                doubleTargets = push_bit 8 targets AND onlyRank 3 AND free
            in (targets, doubleTargets))
         else
           (let movableBlackPawns = ourPawns AND nonpinned;
                targets = drop_bit 8 movableBlackPawns AND free;
                doubleTargets = drop_bit 8 targets AND onlyRank 4 AND free
            in (targets, doubleTargets)))"

definition pawnPushes :: "Board \<Rightarrow> u64 \<Rightarrow> u64 \<Rightarrow> Move list" where
  "pawnPushes b nonpinned allowDest =
     (let (targets, doubleTargets) = pawnPushBitboards b nonpinned;
          ourCol = Colortomove b;
          oneRankBack = oneRankBacks ourCol;
          targets = targets AND allowDest;
          doubleTargets = doubleTargets AND allowDest
      in concat (map (\<lambda>target.
                   (let canPromote = (if Colortomove b = White then 56 \<le> target else target \<le> 7);
                        move = Setto (Square (int target))
                                 (Setfrom (Square (int target + oneRankBack)) 0)
                    in if canPromote then map (\<lambda>i. Setpromote i move) promoPieces
                       else [move]))
                 (bits_of targets))
         @ map (\<lambda>doubleTarget.
                  Setto (Square (int doubleTarget))
                    (Setfrom (Square (int doubleTarget + 2 * oneRankBack)) 0))
               (bits_of doubleTargets))"

definition pawnCaptureBitboards :: "Board \<Rightarrow> u64 \<Rightarrow> u64 \<times> u64" where
  "pawnCaptureBitboards b nonpinned =
     (let notHFile = (0x7F7F7F7F7F7F7F7F :: u64);
          notAFile = (0xFEFEFEFEFEFEFEFE :: u64);
          ourCol = Colortomove b;
          ourPieces = Bbs b ourCol;
          oppPieces = Bbs b (oppColor ourCol);
          targets = oppPieces AllP;
          targets = (if 0 < enpassant b then targets OR bitAt (enpassant b) else targets);
          ourpawns = ourPieces Pawn AND nonpinned
      in if Colortomove b = White then
           (push_bit 9 ourpawns AND notAFile AND targets,
            push_bit 7 ourpawns AND notHFile AND targets)
         else
           (drop_bit 7 ourpawns AND notAFile AND targets,
            drop_bit 9 ourpawns AND notHFile AND targets))"

text \<open>Lines 296-321 of \<^verbatim>\<open>pawnCaptures\<close>: the en-passant capture is performed on the four
  bitboards, the check of the king is read, and the edit is taken back.\<close>

definition epProvisional :: "Move \<Rightarrow> Board \<Rightarrow> Board" where
  "epProvisional move b =
     (let ourCol = Colortomove b;
          oppCol = oppColor ourCol;
          enpassantEnemy = Square (int (unat (To move)) + oneRankBacks ourCol);
          b = bb_set (ourCol, Pawn) (Bbs b ourCol Pawn AND NOT (bitAt (From move))) b;
          b = bb_set (ourCol, AllP) (Bbs b ourCol AllP AND NOT (bitAt (From move))) b;
          b = bb_set (ourCol, Pawn) (Bbs b ourCol Pawn OR bitAt (To move)) b;
          b = bb_set (ourCol, AllP) (Bbs b ourCol AllP OR bitAt (To move)) b;
          b = bb_set (oppCol, Pawn) (Bbs b oppCol Pawn AND NOT (bitAt enpassantEnemy)) b
      in bb_set (oppCol, AllP) (Bbs b oppCol AllP AND NOT (bitAt enpassantEnemy)) b)"

definition epRevert :: "Move \<Rightarrow> Board \<Rightarrow> Board" where
  "epRevert move b =
     (let ourCol = Colortomove b;
          oppCol = oppColor ourCol;
          enpassantEnemy = Square (int (unat (To move)) + oneRankBacks ourCol);
          b = bb_set (ourCol, Pawn) (Bbs b ourCol Pawn OR bitAt (From move)) b;
          b = bb_set (ourCol, AllP) (Bbs b ourCol AllP OR bitAt (From move)) b;
          b = bb_set (ourCol, Pawn) (Bbs b ourCol Pawn AND NOT (bitAt (To move))) b;
          b = bb_set (ourCol, AllP) (Bbs b ourCol AllP AND NOT (bitAt (To move))) b;
          b = bb_set (oppCol, Pawn) (Bbs b oppCol Pawn OR bitAt enpassantEnemy) b
      in bb_set (oppCol, AllP) (Bbs b oppCol AllP OR bitAt enpassantEnemy) b)"

text \<open>One round of the inner loop of \<^verbatim>\<open>pawnCaptures\<close>, for direction index \<open>dir\<close> and target
  square \<open>target\<close>.\<close>

definition pawnCaptureStep :: "nat \<Rightarrow> nat \<Rightarrow> Board \<Rightarrow> (Move list \<times> Board) option" where
  "pawnCaptureStep dir target b = do {
     let move = Setto (Square (int target)) 0;
     let move = (if Colortomove b = White
                 then Setfrom (Square (int target - (9 - int dir * 2))) move
                 else Setfrom (Square (int target + (9 - int dir * 2))) move);
     let canPromote = (if Colortomove b = White then 56 \<le> target else target \<le> 7);
     (kingInCheck, b) \<leftarrow>
       (if Square (int target) = enpassant b \<and> enpassant b \<noteq> 0 then do {
          let b = epProvisional move b;
          kingInCheck \<leftarrow> OurKingInCheck b;
          Some (kingInCheck, epRevert move b)
        } else Some (False, b));
     if kingInCheck then Some ([], b)
     else if canPromote then Some (map (\<lambda>i. Setpromote i move) promoPieces, b)
     else Some ([move], b)
   }"

fun pawnCaptureLoop :: "(nat \<times> nat) list \<Rightarrow> Board \<Rightarrow> (Move list \<times> Board) option" where
  "pawnCaptureLoop [] b = Some ([], b)"
| "pawnCaptureLoop ((dir, target) # rest) b = do {
     (ms, b) \<leftarrow> pawnCaptureStep dir target b;
     (ms', b) \<leftarrow> pawnCaptureLoop rest b;
     Some (ms @ ms', b)
   }"

definition pawnCaptures :: "Board \<Rightarrow> u64 \<Rightarrow> u64 \<Rightarrow> (Move list \<times> Board) option" where
  "pawnCaptures b nonpinned allowDest =
     (let (east, west) = pawnCaptureBitboards b nonpinned;
          allowDest = (if 0 < enpassant b then allowDest OR bitAt (enpassant b) else allowDest);
          east = east AND allowDest;
          west = west AND allowDest;
          dirbitboards = (if Colortomove b = Black then [west, east] else [east, west])
      in pawnCaptureLoop
           (map (Pair 0) (bits_of (dirbitboards ! 0)) @ map (Pair 1) (bits_of (dirbitboards ! 1)))
           b)"

subsection \<open>Knights, sliders, king\<close>

definition knightMoves :: "Board \<Rightarrow> u64 \<Rightarrow> u64 \<Rightarrow> Move list" where
  "knightMoves b nonpinned allowDest =
     (let ourPieces = Bbs b (Colortomove b);
          ourKnights = ourPieces Knight AND nonpinned;
          noFriendlyPieces = NOT (ourPieces AllP)
      in concat (map (\<lambda>currentKnight.
                   genMovesFromTargets (Square (int currentKnight))
                     (knightMasks currentKnight AND noFriendlyPieces AND allowDest))
                 (bits_of ourKnights)))"

text \<open>\<^verbatim>\<open>kingPushes\<close> takes the king off the bitboards, tests each target square, and puts
  the king back. \<^verbatim>\<open>kingMasks[ourKingLocation]\<close> panics without a king.\<close>

fun kingPushLoop :: "Board \<Rightarrow> u8 \<Rightarrow> nat list \<Rightarrow> Move list option" where
  "kingPushLoop b ourKingLocation [] = Some []"
| "kingPushLoop b ourKingLocation (target # rest) = do {
     a \<leftarrow> UnderDirectAttack b (Colortomove b = White) (Square (int target));
     ms \<leftarrow> kingPushLoop b ourKingLocation rest;
     Some (if a then ms else Setto (Square (int target)) (Setfrom ourKingLocation 0) # ms)
   }"

definition kingPushes :: "Board \<Rightarrow> ColorT \<Rightarrow> u64 \<Rightarrow> (Move list \<times> Board) option" where
  "kingPushes b ptrToOurBitboards allowDest = do {
     let ourKingLocation = (of_nat (TrailingZeros64 (Bbs b ptrToOurBitboards King)) :: u8);
     let noFriendlyPieces = NOT (Bbs b ptrToOurBitboards AllP);
     let oldKings = Bbs b ptrToOurBitboards King;
     let b = bb_set (ptrToOurBitboards, King) 0 b;
     let b = bb_set (ptrToOurBitboards, AllP)
               (Bbs b ptrToOurBitboards AllP AND NOT (bitAt ourKingLocation)) b;
     targets \<leftarrow> (if 64 \<le> unat ourKingLocation then None
                 else Some (kingMasks (unat ourKingLocation) AND noFriendlyPieces AND allowDest));
     ms \<leftarrow> kingPushLoop b ourKingLocation (bits_of targets);
     let b = bb_set (ptrToOurBitboards, King) oldKings b;
     let b = bb_set (ptrToOurBitboards, AllP)
               (Bbs b ptrToOurBitboards AllP OR bitAt ourKingLocation) b;
     Some (ms, b)
   }"

definition kingMoves :: "Board \<Rightarrow> u64 \<Rightarrow> bool \<Rightarrow> (Move list \<times> Board) option" where
  "kingMoves b allowDest includeCastling = do {
     let ourCol = Colortomove b;
     castles \<leftarrow>
       (if includeCastling then do {
          let ourKingLocation = (of_nat (TrailingZeros64 (Bbs b ourCol King)) :: u8);
          let allPieces = Bbs b White AllP OR Bbs b Black AllP;
          (canCastleQueenside, canCastleKingside) \<leftarrow>
            (if Colortomove b = White then do {
               let kingsideClear = (allPieces AND (push_bit 5 1 OR push_bit 6 1) = 0);
               let queensideClear =
                     (allPieces AND (push_bit 3 1 OR push_bit 2 1 OR push_bit 1 1) = 0);
               q \<leftarrow> (if canCastle b White Queenside \<and> queensideClear
                     then map_option Not (anyUnderDirectAttack b True [2, 3]) else Some False);
               k \<leftarrow> (if canCastle b White Kingside \<and> kingsideClear
                     then map_option Not (anyUnderDirectAttack b True [5, 6]) else Some False);
               Some (q, k)
             } else do {
               let kingsideClear = (allPieces AND (push_bit 61 1 OR push_bit 62 1) = 0);
               let queensideClear =
                     (allPieces AND (push_bit 57 1 OR push_bit 58 1 OR push_bit 59 1) = 0);
               q \<leftarrow> (if canCastle b Black Queenside \<and> queensideClear
                     then map_option Not (anyUnderDirectAttack b False [58, 59]) else Some False);
               k \<leftarrow> (if canCastle b Black Kingside \<and> kingsideClear
                     then map_option Not (anyUnderDirectAttack b False [61, 62]) else Some False);
               Some (q, k)
             });
          Some ((if canCastleKingside
                 then [Setto (ourKingLocation + 2) (Setfrom ourKingLocation 0)] else [])
                @ (if canCastleQueenside
                   then [Setto (ourKingLocation - 2) (Setfrom ourKingLocation 0)] else []))
        } else Some []);
     (ms, b) \<leftarrow> kingPushes b ourCol allowDest;
     Some (castles @ ms, b)
   }"

definition rookMoves :: "Board \<Rightarrow> u64 \<Rightarrow> u64 \<Rightarrow> Move list" where
  "rookMoves b nonpinned allowDest =
     (let ourPieces = Bbs b (Colortomove b);
          ourRooks = ourPieces Rook AND nonpinned;
          friendlyPieces = ourPieces AllP;
          allPieces = Bbs b White AllP OR Bbs b Black AllP
      in concat (map (\<lambda>currRook.
                   genMovesFromTargets (Square (int currRook))
                     (CalculateRookMoveBitboard currRook allPieces
                        AND NOT friendlyPieces AND allowDest))
                 (bits_of ourRooks)))"

definition bishopMoves :: "Board \<Rightarrow> u64 \<Rightarrow> u64 \<Rightarrow> Move list" where
  "bishopMoves b nonpinned allowDest =
     (let ourPieces = Bbs b (Colortomove b);
          ourBishops = ourPieces Bishop AND nonpinned;
          friendlyPieces = ourPieces AllP;
          allPieces = Bbs b White AllP OR Bbs b Black AllP
      in concat (map (\<lambda>currBishop.
                   genMovesFromTargets (Square (int currBishop))
                     (CalculateBishopMoveBitboard currBishop allPieces
                        AND NOT friendlyPieces AND allowDest))
                 (bits_of ourBishops)))"

definition queenMoves :: "Board \<Rightarrow> u64 \<Rightarrow> u64 \<Rightarrow> Move list" where
  "queenMoves b nonpinned allowDest =
     (let ourPieces = Bbs b (Colortomove b);
          ourQueens = ourPieces Queen AND nonpinned;
          friendlyPieces = ourPieces AllP;
          allPieces = Bbs b White AllP OR Bbs b Black AllP
      in concat (map (\<lambda>currQueen.
                   genMovesFromTargets (Square (int currQueen))
                     (CalculateBishopMoveBitboard currQueen allPieces
                        AND NOT friendlyPieces AND allowDest)
                   @ genMovesFromTargets (Square (int currQueen))
                       (CalculateRookMoveBitboard currQueen allPieces
                          AND NOT friendlyPieces AND allowDest))
                 (bits_of ourQueens)))"

subsection \<open>The entry points\<close>

text \<open>\<^verbatim>\<open>GenerateLegalMoves2\<close> returns the moves and the check flag; the model adds the board
  as the call leaves it.\<close>

definition GenerateLegalMoves2 :: "Board \<Rightarrow> bool \<Rightarrow> (Move list \<times> bool \<times> Board) option" where
  "GenerateLegalMoves2 b onlyCapturesPromosCheckEvasion = do {
     let ourCol = Colortomove b;
     let kingLocation = (of_nat (TrailingZeros64 (Bbs b ourCol King)) :: u8);
     (kingAttackers, blockerDestinations) \<leftarrow> countAttacks b (ourCol = White) kingLocation 2;
     if 2 \<le> kingAttackers then do {
       (ms, b) \<leftarrow> kingPushes b ourCol everything;
       Some (ms, True, b)
     } else if kingAttackers = 1 then do {
       (pinnedMoves, pinnedPieces) \<leftarrow> generatePinnedMoves b blockerDestinations;
       let nonpinnedPieces = NOT pinnedPieces;
       let pushes = pawnPushes b nonpinnedPieces blockerDestinations;
       (captures, b) \<leftarrow> pawnCaptures b nonpinnedPieces blockerDestinations;
       let knights = knightMoves b nonpinnedPieces blockerDestinations;
       let rooks = rookMoves b nonpinnedPieces blockerDestinations;
       let bishops = bishopMoves b nonpinnedPieces blockerDestinations;
       let queens = queenMoves b nonpinnedPieces blockerDestinations;
       (kings, b) \<leftarrow> kingPushes b ourCol everything;
       Some (pinnedMoves @ pushes @ captures @ knights @ rooks @ bishops @ queens @ kings, True, b)
     } else do {
       let oppCol = oppColor ourCol;
       let allowDest = (if onlyCapturesPromosCheckEvasion then Bbs b oppCol AllP else everything);
       (pinnedMoves, pinnedPieces) \<leftarrow> generatePinnedMoves b allowDest;
       let nonpinnedPieces = NOT pinnedPieces;
       let promoDest = promoRankBbs ourCol;
       let pushes = pawnPushes b nonpinnedPieces (allowDest OR promoDest);
       (captures, b) \<leftarrow> pawnCaptures b nonpinnedPieces allowDest;
       let knights = knightMoves b nonpinnedPieces allowDest;
       let rooks = rookMoves b nonpinnedPieces allowDest;
       let bishops = bishopMoves b nonpinnedPieces allowDest;
       let queens = queenMoves b nonpinnedPieces allowDest;
       (kings, b) \<leftarrow> kingMoves b allowDest (\<not> onlyCapturesPromosCheckEvasion);
       Some (pinnedMoves @ pushes @ captures @ knights @ rooks @ bishops @ queens @ kings, False, b)
     }
   }"

definition GenerateLegalMoves :: "Board \<Rightarrow> (Move list \<times> Board) option" where
  "GenerateLegalMoves b = do {
     (moves, _, b) \<leftarrow> GenerateLegalMoves2 b False;
     Some (moves, b)
   }"


section \<open>Consistent positions\<close>

text \<open>The invariants of a position, after section 3 of the specification. They are the
  hypotheses of the theorems below; each is a predicate of its own, so that a theorem can
  name the ones it needs.\<close>

definition occupied :: "Board \<Rightarrow> u64" where
  "occupied b = Bbs b White AllP OR Bbs b Black AllP"

definition kinds :: "Piece list" where
  "kinds = [Pawn, Knight, Bishop, Rook, Queen, King]"

text \<open>Invariant 1: for each colour, \<open>All\<close> is the union of the six kinds, and the kinds are
  pairwise disjoint. The slot of \<^verbatim>\<open>Nothing\<close>, which no piece uses, is empty, as \<^verbatim>\<open>ParseFen\<close>
  leaves it.\<close>

definition inv_union :: "Board \<Rightarrow> bool" where
  "inv_union b \<longleftrightarrow>
     (\<forall>c. Bbs b c AllP =
            Bbs b c Pawn OR Bbs b c Knight OR Bbs b c Bishop OR Bbs b c Rook OR
            Bbs b c Queen OR Bbs b c King) \<and>
     (\<forall>c. \<forall>p \<in> set kinds. \<forall>q \<in> set kinds. p \<noteq> q \<longrightarrow> Bbs b c p AND Bbs b c q = 0) \<and>
     (\<forall>c. Bbs b c Nothing = 0)"

text \<open>Invariant 2: no square is occupied by both colours.\<close>

definition inv_colors :: "Board \<Rightarrow> bool" where
  "inv_colors b \<longleftrightarrow> Bbs b White AllP AND Bbs b Black AllP = 0"

text \<open>Invariant 3: \<^verbatim>\<open>pieces\<close> has its 64 entries and agrees with the bitboards.\<close>

definition pieces_agree :: "Board \<Rightarrow> bool" where
  "pieces_agree b \<longleftrightarrow>
     length (pieces b) = 64 \<and>
     (\<forall>s < 64. (pieces b ! s = Nothing \<longleftrightarrow> \<not> bit (occupied b) s) \<and>
               (\<forall>p \<in> set kinds. pieces b ! s = p \<longleftrightarrow> bit (Bbs b White p OR Bbs b Black p) s))"

text \<open>Invariant 4: exactly one king per colour.\<close>

definition one_king :: "Board \<Rightarrow> bool" where
  "one_king b \<longleftrightarrow> (\<forall>c. \<exists>k < 64. Bbs b c King = push_bit k 1)"

text \<open>Invariant 5: an en-passant square lies on the sixth rank of the side to move (rank
  index 5 for White, 2 for Black), it is empty, and the pawn that has just passed over it
  stands behind it.\<close>

definition ep_ok :: "Board \<Rightarrow> bool" where
  "ep_ok b \<longleftrightarrow>
     (enpassant b \<noteq> 0 \<longrightarrow>
        \<not> bit (occupied b) (unat (enpassant b)) \<and>
        (case Colortomove b of
           White \<Rightarrow> 40 \<le> unat (enpassant b) \<and> unat (enpassant b) \<le> 47 \<and>
                    bit (Bbs b Black Pawn) (unat (enpassant b) - 8)
         | Black \<Rightarrow> 16 \<le> unat (enpassant b) \<and> unat (enpassant b) \<le> 23 \<and>
                    bit (Bbs b White Pawn) (unat (enpassant b) + 8)))"

text \<open>Invariant 6: a castle right implies that the king and the rook are on their home
  squares.\<close>

definition castle_ok :: "Board \<Rightarrow> bool" where
  "castle_ok b \<longleftrightarrow>
     (canCastle b White Kingside \<longrightarrow> bit (Bbs b White King) 4 \<and> bit (Bbs b White Rook) 7) \<and>
     (canCastle b White Queenside \<longrightarrow> bit (Bbs b White King) 4 \<and> bit (Bbs b White Rook) 0) \<and>
     (canCastle b Black Kingside \<longrightarrow> bit (Bbs b Black King) 60 \<and> bit (Bbs b Black Rook) 63) \<and>
     (canCastle b Black Queenside \<longrightarrow> bit (Bbs b Black King) 60 \<and> bit (Bbs b Black Rook) 56)"

text \<open>Invariant 7: the hash is the one computed from scratch.\<close>

definition hash_ok :: "ZobristT \<Rightarrow> Board \<Rightarrow> bool" where
  "hash_ok z b \<longleftrightarrow> recomputeBoardHash z b = Some (hash b)"

definition consistent :: "ZobristT \<Rightarrow> Board \<Rightarrow> bool" where
  "consistent z b \<longleftrightarrow>
     inv_union b \<and> inv_colors b \<and> pieces_agree b \<and> one_king b \<and> ep_ok b \<and> castle_ok b \<and>
     hash_ok z b"

text \<open>What the claims call a capture and a pawn move, read off the position before the
  move.\<close>

definition is_ep_capture :: "Board \<Rightarrow> Move \<Rightarrow> bool" where
  "is_ep_capture b m \<longleftrightarrow>
     pieces b ! unat (From m) = Pawn \<and> To m = enpassant b \<and> enpassant b \<noteq> 0"

definition is_capture :: "Board \<Rightarrow> Move \<Rightarrow> bool" where
  "is_capture b m \<longleftrightarrow> pieces b ! unat (To m) \<noteq> Nothing \<or> is_ep_capture b m"

definition is_pawn_move :: "Board \<Rightarrow> Move \<Rightarrow> bool" where
  "is_pawn_move b m \<longleftrightarrow> pieces b ! unat (From m) = Pawn"

text \<open>The squares of the board that a colour holds castle rights for, as a set.\<close>

definition rights_held :: "Board \<Rightarrow> (ColorT \<times> CastleRightsT) set" where
  "rights_held b = {(c, side). canCastle b c side}"

section \<open>Example data\<close>

text \<open>A set of Zobrist constants and some positions, for the concrete instances below. The
  positions are written as \<^verbatim>\<open>ParseFen\<close> builds them from the FEN strings given, with the
  hash left at 0 where it plays no part.\<close>

definition zobrist_example :: ZobristT where
  "zobrist_example =
     \<lparr>pieceSquareZobristC = (\<lambda>i s. of_nat (64 * i + s + 1) * 0x9E3779B97F4A7C15),
      castleRightsZobristC = (\<lambda>c side. of_nat (769 + 2 * color_idx c +
                                (case side of Queenside \<Rightarrow> 0 | Kingside \<Rightarrow> 1))
                              * 0x9E3779B97F4A7C15),
      whiteToMoveZobristC = 0xF0E1D2C3B4A59687\<rparr>"

text \<open>\<^verbatim>\<open>rnbqkbnr/pppppppp/8/8/8/8/PPPPPPPP/RNBQKBNR w KQkq - 0 1\<close>, the initial position.\<close>

definition startpos :: Board where
  "startpos =
     \<lparr>Colortomove = White, enpassant = 0, Halfmoveclock = 0,
      castlerights = (\<lambda>c. case c of White \<Rightarrow> 3 | Black \<Rightarrow> 3),
      Fullmoveno = 1,
      Bbs = (\<lambda>c. case c of
               White \<Rightarrow> (\<lambda>p. case p of Nothing \<Rightarrow> 0 | Pawn \<Rightarrow> 0xFF00 | Knight \<Rightarrow> 0x42 | Bishop \<Rightarrow> 0x24 | Rook \<Rightarrow> 0x81 | Queen \<Rightarrow> 0x8 | King \<Rightarrow> 0x10 | AllP \<Rightarrow> 0xFFFF)
             | Black \<Rightarrow> (\<lambda>p. case p of Nothing \<Rightarrow> 0 | Pawn \<Rightarrow> 0xFF000000000000 | Knight \<Rightarrow> 0x4200000000000000 | Bishop \<Rightarrow> 0x2400000000000000 | Rook \<Rightarrow> 0x8100000000000000 | Queen \<Rightarrow> 0x800000000000000 | King \<Rightarrow> 0x1000000000000000 | AllP \<Rightarrow> 0xFFFF000000000000)),
      pieces = [Rook, Knight, Bishop, Queen, King, Bishop, Knight, Rook,
                Pawn, Pawn, Pawn, Pawn, Pawn, Pawn, Pawn, Pawn,
                Nothing, Nothing, Nothing, Nothing, Nothing, Nothing, Nothing, Nothing,
                Nothing, Nothing, Nothing, Nothing, Nothing, Nothing, Nothing, Nothing,
                Nothing, Nothing, Nothing, Nothing, Nothing, Nothing, Nothing, Nothing,
                Nothing, Nothing, Nothing, Nothing, Nothing, Nothing, Nothing, Nothing,
                Pawn, Pawn, Pawn, Pawn, Pawn, Pawn, Pawn, Pawn,
                Rook, Knight, Bishop, Queen, King, Bishop, Knight, Rook],
      hash = 0\<rparr>"


text \<open>\<^verbatim>\<open>8/8/8/K2pP2r/8/8/8/7k w - d6 0 1\<close>: the en-passant capture e5d6 would open the fifth
  rank.\<close>

definition ep_rank_pin :: Board where
  "ep_rank_pin =
     \<lparr>Colortomove = White, enpassant = 43, Halfmoveclock = 0,
      castlerights = (\<lambda>c. case c of White \<Rightarrow> 0 | Black \<Rightarrow> 0),
      Fullmoveno = 1,
      Bbs = (\<lambda>c. case c of
               White \<Rightarrow> (\<lambda>p. case p of Nothing \<Rightarrow> 0 | Pawn \<Rightarrow> 0x1000000000 | Knight \<Rightarrow> 0x0 | Bishop \<Rightarrow> 0x0 | Rook \<Rightarrow> 0x0 | Queen \<Rightarrow> 0x0 | King \<Rightarrow> 0x100000000 | AllP \<Rightarrow> 0x1100000000)
             | Black \<Rightarrow> (\<lambda>p. case p of Nothing \<Rightarrow> 0 | Pawn \<Rightarrow> 0x800000000 | Knight \<Rightarrow> 0x0 | Bishop \<Rightarrow> 0x0 | Rook \<Rightarrow> 0x8000000000 | Queen \<Rightarrow> 0x0 | King \<Rightarrow> 0x80 | AllP \<Rightarrow> 0x8800000080)),
      pieces = [Nothing, Nothing, Nothing, Nothing, Nothing, Nothing, Nothing, King,
                Nothing, Nothing, Nothing, Nothing, Nothing, Nothing, Nothing, Nothing,
                Nothing, Nothing, Nothing, Nothing, Nothing, Nothing, Nothing, Nothing,
                Nothing, Nothing, Nothing, Nothing, Nothing, Nothing, Nothing, Nothing,
                King, Nothing, Nothing, Pawn, Pawn, Nothing, Nothing, Rook,
                Nothing, Nothing, Nothing, Nothing, Nothing, Nothing, Nothing, Nothing,
                Nothing, Nothing, Nothing, Nothing, Nothing, Nothing, Nothing, Nothing,
                Nothing, Nothing, Nothing, Nothing, Nothing, Nothing, Nothing, Nothing],
      hash = 0\<rparr>"


text \<open>\<^verbatim>\<open>7k/2b5/8/3pP3/5K2/8/8/8 w - d6 0 1\<close>: the pawn on e5 is pinned by the bishop on c7,
  and the en-passant capture e5d6 stays on the line of the pin.\<close>

definition ep_diag_pin :: Board where
  "ep_diag_pin =
     \<lparr>Colortomove = White, enpassant = 43, Halfmoveclock = 0,
      castlerights = (\<lambda>c. case c of White \<Rightarrow> 0 | Black \<Rightarrow> 0),
      Fullmoveno = 1,
      Bbs = (\<lambda>c. case c of
               White \<Rightarrow> (\<lambda>p. case p of Nothing \<Rightarrow> 0 | Pawn \<Rightarrow> 0x1000000000 | Knight \<Rightarrow> 0x0 | Bishop \<Rightarrow> 0x0 | Rook \<Rightarrow> 0x0 | Queen \<Rightarrow> 0x0 | King \<Rightarrow> 0x20000000 | AllP \<Rightarrow> 0x1020000000)
             | Black \<Rightarrow> (\<lambda>p. case p of Nothing \<Rightarrow> 0 | Pawn \<Rightarrow> 0x800000000 | Knight \<Rightarrow> 0x0 | Bishop \<Rightarrow> 0x4000000000000 | Rook \<Rightarrow> 0x0 | Queen \<Rightarrow> 0x0 | King \<Rightarrow> 0x8000000000000000 | AllP \<Rightarrow> 0x8004000800000000)),
      pieces = [Nothing, Nothing, Nothing, Nothing, Nothing, Nothing, Nothing, Nothing,
                Nothing, Nothing, Nothing, Nothing, Nothing, Nothing, Nothing, Nothing,
                Nothing, Nothing, Nothing, Nothing, Nothing, Nothing, Nothing, Nothing,
                Nothing, Nothing, Nothing, Nothing, Nothing, King, Nothing, Nothing,
                Nothing, Nothing, Nothing, Pawn, Pawn, Nothing, Nothing, Nothing,
                Nothing, Nothing, Nothing, Nothing, Nothing, Nothing, Nothing, Nothing,
                Nothing, Nothing, Bishop, Nothing, Nothing, Nothing, Nothing, Nothing,
                Nothing, Nothing, Nothing, Nothing, Nothing, Nothing, Nothing, King],
      hash = 0\<rparr>"


text \<open>\<^verbatim>\<open>8/8/8/4P3/8/8/8/K6k w - d6 0 1\<close>: an en-passant square with no pawn behind it, as
  \<^verbatim>\<open>ParseFen\<close> accepts it.\<close>

definition ep_no_pawn :: Board where
  "ep_no_pawn =
     \<lparr>Colortomove = White, enpassant = 43, Halfmoveclock = 0,
      castlerights = (\<lambda>c. case c of White \<Rightarrow> 0 | Black \<Rightarrow> 0),
      Fullmoveno = 1,
      Bbs = (\<lambda>c. case c of
               White \<Rightarrow> (\<lambda>p. case p of Nothing \<Rightarrow> 0 | Pawn \<Rightarrow> 0x1000000000 | Knight \<Rightarrow> 0x0 | Bishop \<Rightarrow> 0x0 | Rook \<Rightarrow> 0x0 | Queen \<Rightarrow> 0x0 | King \<Rightarrow> 0x1 | AllP \<Rightarrow> 0x1000000001)
             | Black \<Rightarrow> (\<lambda>p. case p of Nothing \<Rightarrow> 0 | Pawn \<Rightarrow> 0x0 | Knight \<Rightarrow> 0x0 | Bishop \<Rightarrow> 0x0 | Rook \<Rightarrow> 0x0 | Queen \<Rightarrow> 0x0 | King \<Rightarrow> 0x80 | AllP \<Rightarrow> 0x80)),
      pieces = [King, Nothing, Nothing, Nothing, Nothing, Nothing, Nothing, King,
                Nothing, Nothing, Nothing, Nothing, Nothing, Nothing, Nothing, Nothing,
                Nothing, Nothing, Nothing, Nothing, Nothing, Nothing, Nothing, Nothing,
                Nothing, Nothing, Nothing, Nothing, Nothing, Nothing, Nothing, Nothing,
                Nothing, Nothing, Nothing, Nothing, Pawn, Nothing, Nothing, Nothing,
                Nothing, Nothing, Nothing, Nothing, Nothing, Nothing, Nothing, Nothing,
                Nothing, Nothing, Nothing, Nothing, Nothing, Nothing, Nothing, Nothing,
                Nothing, Nothing, Nothing, Nothing, Nothing, Nothing, Nothing, Nothing],
      hash = 0\<rparr>"


text \<open>\<^verbatim>\<open>4k3/8/8/8/8/5n2/8/r3K3 w - - 0 1\<close>: the white king is attacked by the rook on a1 and the
  knight on f3.\<close>

definition double_check :: Board where
  "double_check =
     \<lparr>Colortomove = White, enpassant = 0, Halfmoveclock = 0,
      castlerights = (\<lambda>c. case c of White \<Rightarrow> 0 | Black \<Rightarrow> 0),
      Fullmoveno = 1,
      Bbs = (\<lambda>c. case c of
               White \<Rightarrow> (\<lambda>p. case p of Nothing \<Rightarrow> 0 | Pawn \<Rightarrow> 0x0 | Knight \<Rightarrow> 0x0 | Bishop \<Rightarrow> 0x0 | Rook \<Rightarrow> 0x0 | Queen \<Rightarrow> 0x0 | King \<Rightarrow> 0x10 | AllP \<Rightarrow> 0x10)
             | Black \<Rightarrow> (\<lambda>p. case p of Nothing \<Rightarrow> 0 | Pawn \<Rightarrow> 0x0 | Knight \<Rightarrow> 0x200000 | Bishop \<Rightarrow> 0x0 | Rook \<Rightarrow> 0x1 | Queen \<Rightarrow> 0x0 | King \<Rightarrow> 0x1000000000000000 | AllP \<Rightarrow> 0x1000000000200001)),
      pieces = [Rook, Nothing, Nothing, Nothing, King, Nothing, Nothing, Nothing,
                Nothing, Nothing, Nothing, Nothing, Nothing, Nothing, Nothing, Nothing,
                Nothing, Nothing, Nothing, Nothing, Nothing, Knight, Nothing, Nothing,
                Nothing, Nothing, Nothing, Nothing, Nothing, Nothing, Nothing, Nothing,
                Nothing, Nothing, Nothing, Nothing, Nothing, Nothing, Nothing, Nothing,
                Nothing, Nothing, Nothing, Nothing, Nothing, Nothing, Nothing, Nothing,
                Nothing, Nothing, Nothing, Nothing, Nothing, Nothing, Nothing, Nothing,
                Nothing, Nothing, Nothing, Nothing, King, Nothing, Nothing, Nothing],
      hash = 0\<rparr>"


text \<open>\<^verbatim>\<open>rnbqkbnr/pppppppp/8/8/8/8/PPPPPPPP/RNBQKBNR w KQkq - 255 1\<close>: the initial position with
  a halfmove clock of 255.\<close>

definition startpos_255 :: Board where
  "startpos_255 = startpos\<lparr>Halfmoveclock := 255\<rparr>"

section \<open>Auxiliary notions for the proofs\<close>

text \<open>Pointwise descriptions of the bitboard writes.\<close>

definition bbs_clear :: "bbptr set \<Rightarrow> u64 \<Rightarrow> (ColorT \<Rightarrow> Piece \<Rightarrow> u64) \<Rightarrow> ColorT \<Rightarrow> Piece \<Rightarrow> u64" where
  "bbs_clear S v F = (\<lambda>c p. if (c, p) \<in> S then F c p AND NOT v else F c p)"

definition bbs_or :: "bbptr set \<Rightarrow> u64 \<Rightarrow> (ColorT \<Rightarrow> Piece \<Rightarrow> u64) \<Rightarrow> ColorT \<Rightarrow> Piece \<Rightarrow> u64" where
  "bbs_or S v F = (\<lambda>c p. if (c, p) \<in> S then F c p OR v else F c p)"

text \<open>Frame facts: what each step leaves alone.\<close>

definition same_meta :: "Board \<Rightarrow> Board \<Rightarrow> bool" where
  "same_meta b' b \<longleftrightarrow>
     Colortomove b' = Colortomove b \<and> enpassant b' = enpassant b \<and>
     Halfmoveclock b' = Halfmoveclock b \<and> castlerights b' = castlerights b \<and>
     Fullmoveno b' = Fullmoveno b \<and> length (pieces b') = length (pieces b)"

text \<open>One set of castle flags holds no right that another does not hold.\<close>

definition rights_le :: "(ColorT \<Rightarrow> u8) \<Rightarrow> (ColorT \<Rightarrow> u8) \<Rightarrow> bool" where
  "rights_le r' r \<longleftrightarrow> (\<forall>c. r' c AND NOT (r c) = 0)"

text \<open>The board of \<^verbatim>\<open>MakeSpecialMove\<close> when it reaches the castle step (line 297): the
  fullmove number, the halfmove clock and the rights of the moving side are updated.\<close>

definition special_pre :: "ZobristT \<Rightarrow> Move \<Rightarrow> Board \<Rightarrow> Board" where
  "special_pre z m b0 =
     (let pt = pieces b0 ! unat (From m);
          b = updateHalfmoveClock m pt
                (b0\<lparr>Fullmoveno := Fullmoveno b0 + of_nat (color_idx (Colortomove b0))\<rparr>);
          b = (if pt = King then stripKingMoveRights z b else b)
      in if pt = Rook
         then stripRookMoveRights z (bitAt (From m)) (startingRankBbs (Colortomove b0)) b else b)"

text \<open>The save structure that \<^verbatim>\<open>MakeSpecialMove\<close> fills in, from the position before the
  move \<open>b0\<close>, the board \<open>b2\<close> after the castle step and the board \<open>b3\<close> after the en-passant
  step.\<close>

definition special_save :: "Move \<Rightarrow> Board \<Rightarrow> Board \<Rightarrow> Board \<Rightarrow> BoardSaveT" where
  "special_save m b0 b2 b3 =
     (let ourCol = Colortomove b0;
          oppCol = oppColor ourCol;
          pt = pieces b0 ! unat (From m);
          crs = castleRookSquares m pt;
          isEp = (pt = Pawn \<and> To m = enpassant b0 \<and> enpassant b0 \<noteq> 0);
          pr = snd (promotionTarget m ourCol pt (ourCol, pt));
          cap = pieces b3 ! unat (To m)
      in \<lparr>Enpassant_s = enpassant b0, Halfmoveclock_s = Halfmoveclock b0,
          Castlerights_s = castlerights b0,
          FromLoc = From m, ToLoc = To m,
          CaptureLoc = (if isEp then enpassant b0 + epDeltas ourCol else To m),
          FromPiece = pt, ToPiece = pr,
          CapturePiece = (if cap \<noteq> Nothing then cap else if isEp then Pawn else Nothing),
          FromBb = Bbs b0 ourCol pt, ToBb = Bbs b3 ourCol pr,
          CaptureBb = (if cap \<noteq> Nothing then Bbs b3 oppCol cap
                       else if isEp then Bbs b2 oppCol Pawn else 0),
          OurRookFrom = (if fst crs \<noteq> 0 then fst (snd crs) else 0),
          OurRookTo = (if fst crs \<noteq> 0 then snd (snd crs) else 0),
          OurRookBb = Bbs b0 ourCol Rook,
          OurAllBb = Bbs b0 ourCol AllP, OppAllBb = Bbs b0 oppCol AllP, Hash_s = hash b0\<rparr>)"

text \<open>The run of \<^verbatim>\<open>MakeSpecialMove\<close> through its steps: \<open>b2\<close> after the castle step, \<open>b3\<close>
  after the en-passant capture, \<open>b4\<close> after the ordinary capture, \<open>b5\<close> after the move of the
  piece.\<close>

definition special_stages ::
  "ZobristT \<Rightarrow> Move \<Rightarrow> Board \<Rightarrow> Board \<Rightarrow> BoardSaveT \<Rightarrow> Board \<Rightarrow> Board \<Rightarrow> Board \<Rightarrow> Board \<Rightarrow> bool" where
  "special_stages z m b0 b' bs b2 b3 b4 b5 \<longleftrightarrow>
     unat (From m) < length (pieces b0) \<and>
     applyCastleRook z (Colortomove b0)
          (fst (castleRookSquares m (pieces b0 ! unat (From m))))
          (fst (snd (castleRookSquares m (pieces b0 ! unat (From m)))))
          (snd (snd (castleRookSquares m (pieces b0 ! unat (From m)))))
          (special_pre z m b0) = Some b2 \<and>
     applyEpCapture z (oppColor (Colortomove b0))
          (pieces b0 ! unat (From m) = Pawn \<and> To m = enpassant b0 \<and> enpassant b0 \<noteq> 0)
          (enpassant b0 + epDeltas (Colortomove b0)) b2 = Some b3 \<and>
     unat (To m) < length (pieces b3) \<and>
     removeCaptured z (oppColor (Colortomove b0)) (pieces b3 ! unat (To m))
          (oppColor (Colortomove b0), pieces b3 ! unat (To m)) (To m)
          (updateEnpassant m (pieces b0 ! unat (From m)) (epDeltas (Colortomove b0)) b3) = Some b4 \<and>
     relocate z (Colortomove b0) (pieces b0 ! unat (From m))
          (snd (promotionTarget m (Colortomove b0) (pieces b0 ! unat (From m))
                  (Colortomove b0, pieces b0 ! unat (From m))))
          (From m) (To m) (Colortomove b0, pieces b0 ! unat (From m))
          (fst (promotionTarget m (Colortomove b0) (pieces b0 ! unat (From m))
                  (Colortomove b0, pieces b0 ! unat (From m)))) b4 = Some b5 \<and>
     b' = finishMove z (enpassant b0)
               (if pieces b3 ! unat (To m) = Rook
                then stripRookCaptureRights z (To m) (bitAt (To m))
                       (startingRankBbs (oppColor (Colortomove b0))) b5
                else b5) \<and>
     bs = special_save m b0 b2 b3"

definition special_run :: "ZobristT \<Rightarrow> Move \<Rightarrow> Board \<Rightarrow> Board \<Rightarrow> BoardSaveT \<Rightarrow> bool" where
  "special_run z m b0 b' bs \<longleftrightarrow> (\<exists>b2 b3 b4 b5. special_stages z m b0 b' bs b2 b3 b4 b5)"

text \<open>The same for \<^verbatim>\<open>MakeSimpleMove\<close>: the board when it reaches the capture block (line
  166), the save structure, and the run through the capture block (\<open>b3\<close>) and the move of the
  piece (\<open>b4\<close>).\<close>

definition simple_pre :: "ZobristT \<Rightarrow> Move \<Rightarrow> Board \<Rightarrow> Board" where
  "simple_pre z m b0 =
     (let b = b0\<lparr>Fullmoveno := Fullmoveno b0 + of_nat (color_idx (Colortomove b0))\<rparr>;
          b = b\<lparr>Halfmoveclock := Halfmoveclock b + 1\<rparr>;
          b = hash_xor (ucast (enpassant b)) b;
          b = b\<lparr>enpassant := 0\<rparr>;
          b = simpleMoverEffects z (Colortomove b0) (pieces b0 ! unat (From m)) (From m) (To m)
                (bitAt (From m)) b
      in hash_xor (ucast (enpassant b)) b)"

definition simple_save :: "Move \<Rightarrow> Board \<Rightarrow> BoardSaveT" where
  "simple_save m b0 =
     (let ourCol = Colortomove b0;
          oppCol = oppColor ourCol;
          fromPiece = pieces b0 ! unat (From m);
          capturePiece = pieces b0 ! unat (To m)
      in \<lparr>Enpassant_s = enpassant b0, Halfmoveclock_s = Halfmoveclock b0,
          Castlerights_s = castlerights b0,
          FromLoc = From m, ToLoc = To m, CaptureLoc = To m,
          FromPiece = fromPiece, ToPiece = fromPiece, CapturePiece = capturePiece,
          FromBb = Bbs b0 ourCol fromPiece, ToBb = Bbs b0 ourCol fromPiece,
          CaptureBb = Bbs b0 oppCol capturePiece,
          OurRookFrom = 0, OurRookTo = 0, OurRookBb = Bbs b0 ourCol Rook,
          OurAllBb = Bbs b0 ourCol AllP, OppAllBb = Bbs b0 oppCol AllP, Hash_s = hash b0\<rparr>)"

definition simple_stages ::
  "ZobristT \<Rightarrow> Move \<Rightarrow> Board \<Rightarrow> Board \<Rightarrow> BoardSaveT \<Rightarrow> Board \<Rightarrow> Board \<Rightarrow> bool" where
  "simple_stages z m b0 b' bs b3 b4 \<longleftrightarrow>
     unat (From m) < length (pieces b0) \<and> unat (To m) < length (pieces b0) \<and>
     simpleCapture z (oppColor (Colortomove b0)) (pieces b0 ! unat (To m)) (To m) (bitAt (To m))
       (simple_pre z m b0) = Some b3 \<and>
     simpleRelocate z (Colortomove b0) (pieces b0 ! unat (From m)) (From m) (To m)
       (bitAt (From m)) (bitAt (To m)) b3 = Some b4 \<and>
     b' = hash_xor (whiteToMoveZobristC z) (b4\<lparr>Colortomove := oppColor (Colortomove b4)\<rparr>) \<and>
     bs = simple_save m b0"

definition simple_run :: "ZobristT \<Rightarrow> Move \<Rightarrow> Board \<Rightarrow> Board \<Rightarrow> BoardSaveT \<Rightarrow> bool" where
  "simple_run z m b0 b' bs \<longleftrightarrow> (\<exists>b3 b4. simple_stages z m b0 b' bs b3 b4)"

section \<open>Verification\<close>

subsection \<open>Parsing move strings\<close>


lemma AlgebraicToIndex_pair:
  "AlgebraicToIndex [f, r] =
     (if square_chars_code f r
      then Some ((of_nat (of_char (ToLower_byte f)) - of_nat (of_char CHR ''a''))
                 + ((of_nat (of_char r) - of_nat (of_char CHR ''1'')) * 8), None)
      else Some (64, Some (InvalidAlgebraic [f, r])))"
  by (auto simp: AlgebraicToIndex_def ToLower_byte_def Let_def square_chars_code_def)

lemma list4: "length s = 4 \<Longrightarrow> \<exists>a b c d. s = [a, b, c, d]"
  by (auto simp: length_Suc_conv numeral_eq_Suc)

lemma list5: "length s = 5 \<Longrightarrow> \<exists>a b c d e. s = [a, b, c, d, e]"
  by (auto simp: length_Suc_conv numeral_eq_Suc)

lemma parse_ok_4:
  "[a, b, c, d] \<noteq> ''0000'' \<Longrightarrow>
   parse_ok [a, b, c, d] \<longleftrightarrow> square_chars_code a b \<and> square_chars_code c d"
  by (auto simp: parse_ok_def ParseMove_def AlgebraicToIndex_pair Let_def)

lemma parse_ok_5:
  "parse_ok [a, b, c, d, e] \<longleftrightarrow> square_chars_code a b \<and> square_chars_code c d \<and> promo_char e"
  by (auto simp: parse_ok_def ParseMove_def AlgebraicToIndex_pair Let_def promo_char_def)

lemma parse_ok_length: "parse_ok s \<Longrightarrow> s \<noteq> ''0000'' \<Longrightarrow> length s = 4 \<or> length s = 5"
  by (auto simp: parse_ok_def ParseMove_def split: if_splits)

lemma ParseMove_total4: "ParseMove [a,b,c,d] \<noteq> None"
  by (auto simp: ParseMove_def AlgebraicToIndex_pair Let_def)
lemma ParseMove_total5: "ParseMove [a,b,c,d,e] \<noteq> None"
  by (auto simp: ParseMove_def AlgebraicToIndex_pair Let_def)

lemma ParseMove_total: "ParseMove s \<noteq> None"
proof (cases "length s = 4 \<or> length s = 5")
  case True
  then show ?thesis using list4[of s] list5[of s] ParseMove_total4 ParseMove_total5 by metis
next
  case False
  then show ?thesis by (auto simp: ParseMove_def)
qed

text \<open>Claim C8, as amended. \<^verbatim>\<open>ParseMove\<close> returns the null move 0 without error on
  "0000". On any other input it succeeds if and only if the string has 4 or 5 bytes, bytes
  0-1 and 2-3 each denote a square, where the file letter may be a-h or A-H (the parser
  lowers it) and the rank digit is 1-8, and a fifth byte, when present, is one of n, b, r, q.
  In every other case it returns an error; it never panics.\<close>

theorem ParseMove_accepts:
  "ParseMove ''0000'' = Some (0, None) \<and>
   (s \<noteq> ''0000'' \<longrightarrow>
      (parse_ok s \<longleftrightarrow>
         (length s = 4 \<or> length s = 5) \<and>
         square_chars_code (s ! 0) (s ! 1) \<and> square_chars_code (s ! 2) (s ! 3) \<and>
         (length s = 5 \<longrightarrow> promo_char (s ! 4)))) \<and>
   (\<not> parse_ok s \<longrightarrow> (\<exists>m e. ParseMove s = Some (m, Some e)))"
proof (intro conjI impI)
  show "ParseMove ''0000'' = Some (0, None)" by (simp add: ParseMove_def)
next
  assume ne: "s \<noteq> ''0000''"
  show "parse_ok s \<longleftrightarrow>
         (length s = 4 \<or> length s = 5) \<and>
         square_chars_code (s ! 0) (s ! 1) \<and> square_chars_code (s ! 2) (s ! 3) \<and>
         (length s = 5 \<longrightarrow> promo_char (s ! 4))"
  proof (cases "length s = 4")
    case True
    then obtain a b c d where s: "s = [a, b, c, d]" using list4 by blast
    show ?thesis using ne parse_ok_4[of a b c d] unfolding s by simp
  next
    case n4: False
    show ?thesis
    proof (cases "length s = 5")
      case True
      then obtain a b c d e where s: "s = [a, b, c, d, e]" using list5 by blast
      show ?thesis using parse_ok_5[of a b c d e] unfolding s by simp
    next
      case False
      then show ?thesis using n4 ne parse_ok_length by blast
    qed
  qed
next
  assume "\<not> parse_ok s"
  then show "\<exists>m e. ParseMove s = Some (m, Some e)"
    using ParseMove_total[of s] unfolding parse_ok_def
    by (cases "ParseMove s") auto
qed

theorem ParseMove_accepts_witness:
  "''e7e8q'' \<noteq> ''0000'' \<and> parse_ok ''e7e8q'' \<and> length ''e7e8q'' = 5 \<and> promo_char (''e7e8q'' ! 4) \<and>
   \<not> parse_ok ''e7e8k'' \<and> (\<exists>m e. ParseMove ''e7e8k'' = Some (m, Some e))"
  using ParseMove_accepts[of "''e7e8q''"] ParseMove_accepts[of "''e7e8k''"]
  by (simp add: square_chars_code_def promo_char_def)

text \<open>Claim C8 as stated fails: the upper-case file letter of "A2a4" is not in a-h, and the
  string parses.\<close>

theorem ParseMove_uppercase_file_counterexample:
  "''A2a4'' \<noteq> ''0000'' \<and> parse_ok ''A2a4'' \<and> \<not> square_chars_spec (''A2a4'' ! 0) (''A2a4'' ! 1)"
  by (simp add: parse_ok_def ParseMove_def AlgebraicToIndex_def ToLower_byte_def Let_def
      square_chars_spec_def)

subsection \<open>Moves and the steps of a move application\<close>


lemma To_mask: "To m = ucast (take_bit 6 m)"
  unfolding To_def by (simp add: take_bit_eq_mask mask_eq_exp_minus_1)

lemma To_lt: "unat (To m) < 64"
  using take_bit_nat_less_exp[of 6 "unat m"]
  unfolding To_mask by (simp add: unsigned_ucast_eq unsigned_take_bit_eq)

lemma From_mask: "From m = ucast (take_bit 6 (drop_bit 6 m))"
  unfolding From_def by (simp add: drop_bit_and take_bit_eq_mask mask_eq_exp_minus_1)

lemma From_lt: "unat (From m) < 64"
  using take_bit_nat_less_exp[of 6 "unat (drop_bit 6 m)"]
  unfolding From_mask by (simp add: unsigned_ucast_eq unsigned_take_bit_eq)

lemma removePiece_nf:
  "removePiece piece pos pb ab b =
     (if unat pos < length (pieces b)
      then Some (b\<lparr>Bbs := bbs_clear {pb, ab} (bitAt pos) (Bbs b),
                   pieces := (pieces b)[unat pos := Nothing]\<rparr>)
      else None)"
  by (cases pb; cases ab)
     (auto simp: removePiece_def pieces_set_def bb_set_def bb_get_def bbs_clear_def Let_def fun_eq_iff
        intro!: Board.equality)

lemma addPiece_nf:
  "addPiece piece pos pb ab b =
     (if unat pos < length (pieces b)
      then Some (b\<lparr>Bbs := bbs_or {pb, ab} (bitAt pos) (Bbs b),
                   pieces := (pieces b)[unat pos := piece]\<rparr>)
      else None)"
  by (cases pb; cases ab)
     (auto simp: addPiece_def pieces_set_def bb_set_def bb_get_def bbs_or_def Let_def fun_eq_iff
        intro!: Board.equality)

lemma movePiece_nf:
  "movePiece piece destPiece from to pb db ab b =
     (if unat from < length (pieces b) \<and> unat to < length (pieces b)
      then Some (b\<lparr>Bbs := bbs_or {db, ab} (bitAt to) (bbs_clear {pb, ab} (bitAt from) (Bbs b)),
                   pieces := (pieces b)[unat from := Nothing, unat to := destPiece]\<rparr>)
      else None)"
  by (simp add: movePiece_def removePiece_nf addPiece_nf)

lemma applyCastleRook_nf:
  "applyCastleRook z ourCol castleStatus old new b =
     (if castleStatus = 0 then Some b
      else if unat old < length (pieces b) \<and> unat new < length (pieces b) \<and> unat old < 64 \<and> unat new < 64
      then Some (b\<lparr>Bbs := bbs_or {(ourCol, Rook), (ourCol, AllP)} (bitAt new)
                             (bbs_clear {(ourCol, Rook), (ourCol, AllP)} (bitAt old) (Bbs b)),
                   pieces := (pieces b)[unat old := Nothing, unat new := Rook],
                   hash := (hash b XOR pieceSquareZobristC z (nat (piecesPawnZobristIndexes ourCol + 3)) (unat old))
                                  XOR pieceSquareZobristC z (nat (piecesPawnZobristIndexes ourCol + 3)) (unat new)\<rparr>)
      else None)"
  by (cases ourCol) (auto simp: applyCastleRook_def movePiece_nf psz_def hash_xor_def Let_def)

lemma applyEpCapture_nf:
  "applyEpCapture z oppCol isEp loc b =
     (if \<not> isEp then Some b
      else if unat loc < length (pieces b) \<and> unat loc < 64
      then Some (b\<lparr>Bbs := bbs_clear {(oppCol, Pawn), (oppCol, AllP)} (bitAt loc) (Bbs b),
                   pieces := (pieces b)[unat loc := Nothing],
                   hash := hash b XOR pieceSquareZobristC z (nat (piecesPawnZobristIndexes oppCol)) (unat loc)\<rparr>)
      else None)"
  by (cases oppCol) (auto simp: applyEpCapture_def removePiece_nf psz_def hash_xor_def Let_def)

lemma removeCaptured_nf:
  "removeCaptured z oppCol cap capBb toLoc b =
     (if cap = Nothing then Some b
      else if unat toLoc < length (pieces b) \<and> unat toLoc < 64 \<and>
              piecesPawnZobristIndexes oppCol + (int (piece_idx cap) - 1) < 12
      then Some (b\<lparr>Bbs := bbs_clear {capBb, (oppCol, AllP)} (bitAt toLoc) (Bbs b),
                   pieces := (pieces b)[unat toLoc := Nothing],
                   hash := hash b XOR pieceSquareZobristC z
                                 (nat (piecesPawnZobristIndexes oppCol + (int (piece_idx cap) - 1))) (unat toLoc)\<rparr>)
      else None)"
  by (cases oppCol; cases cap) (auto simp: removeCaptured_def removePiece_nf psz_def hash_xor_def Let_def)

lemma relocate_nf:
  "relocate z ourCol pt pr from to pb db b =
     (if unat from < length (pieces b) \<and> unat to < length (pieces b) \<and> unat from < 64 \<and> unat to < 64 \<and>
         0 \<le> (int (piece_idx pt) - 1) + piecesPawnZobristIndexes ourCol \<and>
         (int (piece_idx pt) - 1) + piecesPawnZobristIndexes ourCol < 12 \<and>
         0 \<le> (int (piece_idx pr) - 1) + piecesPawnZobristIndexes ourCol \<and>
         (int (piece_idx pr) - 1) + piecesPawnZobristIndexes ourCol < 12
      then Some (b\<lparr>Bbs := bbs_or {db, (ourCol, AllP)} (bitAt to)
                             (bbs_clear {pb, (ourCol, AllP)} (bitAt from) (Bbs b)),
                   pieces := (pieces b)[unat from := Nothing, unat to := pr],
                   hash := (hash b XOR pieceSquareZobristC z (nat ((int (piece_idx pt) - 1) + piecesPawnZobristIndexes ourCol)) (unat from))
                                  XOR pieceSquareZobristC z (nat ((int (piece_idx pr) - 1) + piecesPawnZobristIndexes ourCol)) (unat to)\<rparr>)
      else None)"
  by (auto simp: relocate_def movePiece_nf psz_def hash_xor_def Let_def)


lemma applyCastleRook_meta: "applyCastleRook z c s old new b = Some b' \<Longrightarrow> same_meta b' b"
  by (auto simp: applyCastleRook_nf same_meta_def split: if_splits)

lemma applyEpCapture_meta: "applyEpCapture z c e loc b = Some b' \<Longrightarrow> same_meta b' b"
  by (auto simp: applyEpCapture_nf same_meta_def split: if_splits)

lemma removeCaptured_meta: "removeCaptured z c cap cb t b = Some b' \<Longrightarrow> same_meta b' b"
  by (auto simp: removeCaptured_nf same_meta_def split: if_splits)

lemma relocate_meta: "relocate z c pt pr f t pb db b = Some b' \<Longrightarrow> same_meta b' b"
  by (auto simp: relocate_nf same_meta_def split: if_splits)

lemma flip_fields [simp]:
  "Halfmoveclock (flipCastleRights z c s b) = Halfmoveclock b"
  "enpassant (flipCastleRights z c s b) = enpassant b"
  "Colortomove (flipCastleRights z c s b) = Colortomove b"
  "Fullmoveno (flipCastleRights z c s b) = Fullmoveno b"
  "pieces (flipCastleRights z c s b) = pieces b"
  "Bbs (flipCastleRights z c s b) = Bbs b"
  by (simp_all add: flipCastleRights_def)

lemma strip_fields [simp]:
  "Halfmoveclock (stripKingMoveRights z b) = Halfmoveclock b"
  "enpassant (stripKingMoveRights z b) = enpassant b"
  "Colortomove (stripKingMoveRights z b) = Colortomove b"
  "Fullmoveno (stripKingMoveRights z b) = Fullmoveno b"
  "pieces (stripKingMoveRights z b) = pieces b"
  "Bbs (stripKingMoveRights z b) = Bbs b"
  "Halfmoveclock (stripRookMoveRights z fb sr b) = Halfmoveclock b"
  "enpassant (stripRookMoveRights z fb sr b) = enpassant b"
  "Colortomove (stripRookMoveRights z fb sr b) = Colortomove b"
  "Fullmoveno (stripRookMoveRights z fb sr b) = Fullmoveno b"
  "pieces (stripRookMoveRights z fb sr b) = pieces b"
  "Bbs (stripRookMoveRights z fb sr b) = Bbs b"
  "Halfmoveclock (stripRookCaptureRights z t tb sr b) = Halfmoveclock b"
  "enpassant (stripRookCaptureRights z t tb sr b) = enpassant b"
  "Colortomove (stripRookCaptureRights z t tb sr b) = Colortomove b"
  "Fullmoveno (stripRookCaptureRights z t tb sr b) = Fullmoveno b"
  "pieces (stripRookCaptureRights z t tb sr b) = pieces b"
  "Bbs (stripRookCaptureRights z t tb sr b) = Bbs b"
  by (simp_all add: stripKingMoveRights_def stripRookMoveRights_def stripRookCaptureRights_def
        flipOurCastleRights_def flipOppCastleRights_def Let_def)

lemma finishMove_fields [simp]:
  "Halfmoveclock (finishMove z e b) = Halfmoveclock b"
  "enpassant (finishMove z e b) = enpassant b"
  "Colortomove (finishMove z e b) = oppColor (Colortomove b)"
  "Fullmoveno (finishMove z e b) = Fullmoveno b"
  "pieces (finishMove z e b) = pieces b"
  "Bbs (finishMove z e b) = Bbs b"
  "castlerights (finishMove z e b) = castlerights b"
  by (simp_all add: finishMove_def hash_xor_def Let_def)

lemma updateEnpassant_fields [simp]:
  "Halfmoveclock (updateEnpassant m pt d b) = Halfmoveclock b"
  "Colortomove (updateEnpassant m pt d b) = Colortomove b"
  "Fullmoveno (updateEnpassant m pt d b) = Fullmoveno b"
  "pieces (updateEnpassant m pt d b) = pieces b"
  "Bbs (updateEnpassant m pt d b) = Bbs b"
  "castlerights (updateEnpassant m pt d b) = castlerights b"
  "hash (updateEnpassant m pt d b) = hash b"
  by (simp_all add: updateEnpassant_def)

lemma updateHalfmoveClock_fields [simp]:
  "enpassant (updateHalfmoveClock m pt b) = enpassant b"
  "Colortomove (updateHalfmoveClock m pt b) = Colortomove b"
  "Fullmoveno (updateHalfmoveClock m pt b) = Fullmoveno b"
  "pieces (updateHalfmoveClock m pt b) = pieces b"
  "Bbs (updateHalfmoveClock m pt b) = Bbs b"
  "castlerights (updateHalfmoveClock m pt b) = castlerights b"
  "hash (updateHalfmoveClock m pt b) = hash b"
  by (simp_all add: updateHalfmoveClock_def)

lemma if_fields:
  "Halfmoveclock (if c then x else y) = (if c then Halfmoveclock x else Halfmoveclock y)"
  "enpassant (if c then x else y) = (if c then enpassant x else enpassant y)"
  "Colortomove (if c then x else y) = (if c then Colortomove x else Colortomove y)"
  "Fullmoveno (if c then x else y) = (if c then Fullmoveno x else Fullmoveno y)"
  "pieces (if c then x else y) = (if c then pieces x else pieces y)"
  "Bbs (if c then x else y) = (if c then Bbs x else Bbs y)"
  "castlerights (if c then x else y) = (if c then castlerights x else castlerights y)"
  by simp_all


lemma PieceAt_Some: "PieceAt b pos = Some p \<longleftrightarrow> unat pos < length (pieces b) \<and> p = pieces b ! unat pos"
  by (auto simp: PieceAt_def)

lemma hmc_special:
  assumes "MakeSpecialMove z m b = Some (b', bs)"
  shows "Halfmoveclock b' =
           (if IsCapture m b \<or> pieces b ! unat (From m) = Pawn then 0 else Halfmoveclock b + 1)"
  using assms
  apply (clarsimp simp: MakeSpecialMove_def Let_def case_prod_beta determinePieceType_def
      PieceAt_Some bind_eq_Some_conv if_fields)
  apply (drule applyCastleRook_meta applyEpCapture_meta removeCaptured_meta relocate_meta)+
  apply (simp add: same_meta_def if_fields)
  apply (simp add: updateHalfmoveClock_def IsCapture_def)
  done


lemma simpleMoverEffects_fields [simp]:
  "Colortomove (simpleMoverEffects z c fp f t fb b) = Colortomove b"
  "Fullmoveno (simpleMoverEffects z c fp f t fb b) = Fullmoveno b"
  "pieces (simpleMoverEffects z c fp f t fb b) = pieces b"
  "Bbs (simpleMoverEffects z c fp f t fb b) = Bbs b"
  by (simp_all add: simpleMoverEffects_def Let_def)

lemma simpleMoverEffects_hmc:
  "Halfmoveclock (simpleMoverEffects z c fp f t fb b) = (if fp = Pawn then 0 else Halfmoveclock b)"
  by (simp add: simpleMoverEffects_def Let_def)

lemma simpleCapture_nf:
  "simpleCapture z oppCol cap toLoc toBit b =
     (if cap = Nothing then Some b
      else if unat toLoc < length (pieces b) \<and> unat toLoc < 64 \<and>
              piecesPawnZobristIndexes oppCol + (int (piece_idx cap) - 1) < 12
      then Some ((if cap = Rook then stripRookCaptureRights z toLoc toBit (startingRankBbs oppCol) else id)
                 (b\<lparr>Halfmoveclock := 0,
                    Bbs := bbs_clear {(oppCol, cap), (oppCol, AllP)} toBit (Bbs b),
                    pieces := (pieces b)[unat toLoc := Nothing],
                    hash := hash b XOR pieceSquareZobristC z
                                 (nat (piecesPawnZobristIndexes oppCol + (int (piece_idx cap) - 1))) (unat toLoc)\<rparr>))
      else None)"
  by (cases oppCol; cases cap)
     (auto simp: simpleCapture_def pieces_set_def bb_set_def psz_def hash_xor_def Let_def
        bbs_clear_def fun_eq_iff intro!: Board.equality arg_cong[where f="stripRookCaptureRights _ _ _ _"])

lemma simpleRelocate_nf:
  "simpleRelocate z ourCol fp from to fromBit toBit b =
     (if unat from < length (pieces b) \<and> unat to < length (pieces b) \<and> unat from < 64 \<and> unat to < 64 \<and>
         0 \<le> (int (piece_idx fp) - 1) + piecesPawnZobristIndexes ourCol \<and>
         (int (piece_idx fp) - 1) + piecesPawnZobristIndexes ourCol < 12
      then Some (b\<lparr>Bbs := bbs_or {(ourCol, fp), (ourCol, AllP)} toBit
                             (bbs_clear {(ourCol, fp), (ourCol, AllP)} fromBit (Bbs b)),
                   pieces := (pieces b)[unat from := Nothing, unat to := fp],
                   hash := (hash b XOR pieceSquareZobristC z (nat ((int (piece_idx fp) - 1) + piecesPawnZobristIndexes ourCol)) (unat from))
                                  XOR pieceSquareZobristC z (nat ((int (piece_idx fp) - 1) + piecesPawnZobristIndexes ourCol)) (unat to)\<rparr>)
      else None)"
  by (auto simp: simpleRelocate_def pieces_set_def bb_set_def psz_def hash_xor_def Let_def
        bbs_clear_def bbs_or_def fun_eq_iff intro!: Board.equality)

lemma simpleRelocate_meta: "simpleRelocate z c fp f t fb tb b = Some b' \<Longrightarrow> same_meta b' b"
  by (auto simp: simpleRelocate_nf same_meta_def split: if_splits)

lemma simpleCapture_fields:
  assumes "simpleCapture z c cap t tb b = Some b'"
  shows "Colortomove b' = Colortomove b" "enpassant b' = enpassant b"
    "Fullmoveno b' = Fullmoveno b" "length (pieces b') = length (pieces b)"
    "Halfmoveclock b' = (if cap = Nothing then Halfmoveclock b else 0)"
  using assms by (auto simp: simpleCapture_nf split: if_splits)

lemma hmc_simple:
  assumes "MakeSimpleMove z m b = Some (b', bs)"
  shows "Halfmoveclock b' =
           (if pieces b ! unat (To m) \<noteq> Nothing \<or> pieces b ! unat (From m) = Pawn then 0
            else Halfmoveclock b + 1)"
  using assms
  apply (clarsimp simp: MakeSimpleMove_def Let_def PieceAt_Some bind_eq_Some_conv hash_xor_def)
  apply (drule simpleRelocate_meta)
  apply (drule simpleCapture_fields(5))
  apply (simp add: same_meta_def simpleMoverEffects_hmc)
  done

lemma special_pre_fields [simp]:
  "Colortomove (special_pre z m b) = Colortomove b"
  "enpassant (special_pre z m b) = enpassant b"
  "pieces (special_pre z m b) = pieces b"
  "Bbs (special_pre z m b) = Bbs b"
  "Fullmoveno (special_pre z m b) = Fullmoveno b + of_nat (color_idx (Colortomove b))"
  by (simp_all add: special_pre_def Let_def)

lemma MakeSpecialMove_run:
  assumes "MakeSpecialMove z m b0 = Some (b', bs)"
  shows "special_run z m b0 b' bs"
  using assms
  apply (clarsimp simp: MakeSpecialMove_def Let_def case_prod_beta determinePieceType_def
      PieceAt_Some bind_eq_Some_conv split del: if_split)
  subgoal for b2 b3 b4 b5
    apply (frule applyCastleRook_meta, frule applyEpCapture_meta)
    unfolding special_run_def special_stages_def
    apply (rule exI[of _ b2], rule exI[of _ b3], rule exI[of _ b4], rule exI[of _ b5])
    apply (simp add: same_meta_def special_pre_def special_save_def Let_def if_fields split del: if_split cong: if_cong)
    done
  done

lemma run_special_MakeSpecialMove:
  assumes "special_run z m b0 b' bs"
  shows "MakeSpecialMove z m b0 = Some (b', bs)"
proof -
  from assms obtain b2 b3 b4 b5 where st: "special_stages z m b0 b' bs b2 b3 b4 b5"
    unfolding special_run_def by blast
  have m2: "same_meta b2 (special_pre z m b0)"
    using st unfolding special_stages_def by (auto dest: applyCastleRook_meta)
  have m3: "same_meta b3 b2"
    using st unfolding special_stages_def by (auto dest: applyEpCapture_meta)
  have f: "unat (From m) < length (pieces b0)" using st unfolding special_stages_def by simp
  have e2: "enpassant b2 = enpassant b0" using m2 by (simp add: same_meta_def)
  show ?thesis
    apply (simp add: MakeSpecialMove_def Let_def case_prod_beta determinePieceType_def
      PieceAt_Some bind_eq_Some_conv f split del: if_split cong: if_cong)
    apply (rule exI[of _ b2], rule conjI)
    subgoal using st by (simp add: special_stages_def special_pre_def Let_def cong: if_cong)
    apply (rule exI[of _ b3], rule conjI)
    subgoal using st e2 by (simp add: special_stages_def)
    apply (rule conjI)
    subgoal using st by (simp add: special_stages_def)
    apply (rule exI[of _ b4], rule conjI)
    subgoal using st by (simp add: special_stages_def)
    apply (rule exI[of _ b5], rule conjI)
    subgoal using st by (simp add: special_stages_def)
    subgoal using st e2
      by (simp add: special_stages_def special_save_def Let_def if_fields
          split del: if_split cong: if_cong)
    done
qed


lemma simple_pre_fields [simp]:
  "Colortomove (simple_pre z m b) = Colortomove b"
  "pieces (simple_pre z m b) = pieces b"
  "Bbs (simple_pre z m b) = Bbs b"
  "Fullmoveno (simple_pre z m b) = Fullmoveno b + of_nat (color_idx (Colortomove b))"
  by (simp_all add: simple_pre_def Let_def hash_xor_def)

lemma MakeSimpleMove_run:
  "MakeSimpleMove z m b0 = Some (b', bs) \<longleftrightarrow> simple_run z m b0 b' bs"
  unfolding simple_run_def simple_stages_def
  by (auto simp: MakeSimpleMove_def Let_def PieceAt_Some bind_eq_Some_conv simple_pre_def
      simple_save_def hash_xor_def split del: if_split cong: if_cong)

subsection \<open>Evaluating the model on concrete positions\<close>

lemmas ev_make = MakeMove_def IsSimple_def MakeSpecialMove_def MakeSimpleMove_def Let_def
  determinePieceType_def PieceAt_def From_def To_def Promote_def piece_of_idx_def
  updateHalfmoveClock_def IsCapture_def bitAt_def castleRookSquares_def
  applyCastleRook_nf applyEpCapture_nf updateEnpassant_def promotionTarget_def
  removeCaptured_nf relocate_nf

lemma all_lt_64: "(\<forall>s<64. P s) \<longleftrightarrow> list_all P [0..<64]"
  by (auto simp: list_all_iff)

lemma pieces_agree_startpos: "pieces_agree startpos"
  by (simp add: pieces_agree_def all_lt_64 upt_rec kinds_def startpos_def occupied_def)

lemma pieces_agree_startpos_255: "pieces_agree startpos_255"
  using pieces_agree_startpos by (simp add: pieces_agree_def startpos_255_def occupied_def)

lemma make_start_255: "\<exists>b' bs. MakeMove zobrist_example 405 startpos_255 = Some (b', bs)"
  by (simp add: ev_make startpos_255_def startpos_def)

subsection \<open>The halfmove clock\<close>


lemma push_bit_1_nz: "n < 64 \<Longrightarrow> push_bit n (1::u64) \<noteq> 0"
proof
  assume "n < 64" "push_bit n (1::u64) = 0"
  then have "bit (push_bit n (1::u64)) n = bit (0::u64) n" by simp
  with \<open>n < 64\<close> show False by (simp add: bit_simps)
qed

lemma bitAt_and_iff: "unat pos < 64 \<Longrightarrow> bitAt pos AND x \<noteq> 0 \<longleftrightarrow> bit x (unat pos)"
proof -
  assume lt: "unat pos < 64"
  have "bitAt pos AND x = (if bit x (unat pos) then push_bit (unat pos) 1 else 0)"
    unfolding bitAt_def
    by (rule bit_word_eqI) (auto simp: bit_simps)
  then show ?thesis using push_bit_1_nz[OF lt] by auto
qed

lemma bit_kinds_occupied:
  assumes "pieces_agree b" "s < 64"
  shows "bit (occupied b) s \<longleftrightarrow> pieces b ! s \<noteq> Nothing"
  using assms by (auto simp: pieces_agree_def)

lemma IsCapture_agree:
  assumes "pieces_agree b"
  shows "IsCapture m b \<or> pieces b ! unat (From m) = Pawn \<longleftrightarrow>
         pieces b ! unat (To m) \<noteq> Nothing \<or> pieces b ! unat (From m) = Pawn"
proof -
  have occ: "bitAt (To m) AND Bbs b White AllP \<noteq> 0 \<or> bitAt (To m) AND Bbs b Black AllP \<noteq> 0
             \<longleftrightarrow> pieces b ! unat (To m) \<noteq> Nothing"
    using assms To_lt[of m]
    by (simp add: bitAt_and_iff pieces_agree_def occupied_def bit_or_iff)
  have pawn: "bitAt (From m) AND Bbs b White Pawn \<noteq> 0 \<or> bitAt (From m) AND Bbs b Black Pawn \<noteq> 0
             \<longleftrightarrow> pieces b ! unat (From m) = Pawn"
    using assms From_lt[of m]
    by (simp add: bitAt_and_iff pieces_agree_def kinds_def bit_or_iff)
  show ?thesis
    unfolding IsCapture_def Let_def using occ pawn by auto
qed

theorem halfmove_clock:
  assumes "pieces_agree b" and "MakeMove z m b = Some (b', bs)"
  shows "Halfmoveclock b' =
           (if is_capture b m \<or> is_pawn_move b m then 0 else Halfmoveclock b + 1)"
proof (cases "IsSimple m")
  case True
  with assms(2) have "MakeSimpleMove z m b = Some (b', bs)" by (simp add: MakeMove_def)
  from hmc_simple[OF this] show ?thesis
    by (auto simp: is_capture_def is_pawn_move_def is_ep_capture_def)
next
  case False
  with assms(2) have "MakeSpecialMove z m b = Some (b', bs)" by (simp add: MakeMove_def)
  from hmc_special[OF this] IsCapture_agree[OF assms(1), of m] show ?thesis
    by (auto simp: is_capture_def is_pawn_move_def is_ep_capture_def)
qed

text \<open>Claim C7, as amended. \<^verbatim>\<open>MakeMove\<close> sets the halfmove clock to 0 if the applied move is
  a capture (en-passant included) or a pawn move; otherwise it adds one to the 8-bit clock,
  and the sum wraps: a clock of 255 becomes 0.\<close>

theorem halfmove_clock_wraps:
  assumes "pieces_agree b" and "MakeMove z m b = Some (b', bs)"
  shows "Halfmoveclock b' =
           (if is_capture b m \<or> is_pawn_move b m then 0 else Halfmoveclock b + 1) \<and>
         unat (Halfmoveclock b') =
           (if is_capture b m \<or> is_pawn_move b m then 0 else (unat (Halfmoveclock b) + 1) mod 256)"
  using halfmove_clock[OF assms] by (simp add: unat_word_ariths)

theorem halfmove_clock_wraps_witness:
  "pieces_agree startpos \<and>
   MakeMove zobrist_example 405 startpos = Some (the (MakeMove zobrist_example 405 startpos)) \<and>
   \<not> is_capture startpos 405 \<and> \<not> is_pawn_move startpos 405 \<and>
   Halfmoveclock (fst (the (MakeMove zobrist_example 405 startpos))) = 1"
proof -
  have s: "MakeMove zobrist_example 405 startpos = Some (the (MakeMove zobrist_example 405 startpos))"
    by (simp add: ev_make startpos_def)
  have n: "\<not> is_capture startpos 405" "\<not> is_pawn_move startpos 405"
    by (simp_all add: is_capture_def is_ep_capture_def is_pawn_move_def ev_make startpos_def)
  have h: "Halfmoveclock startpos = 0" by (simp add: startpos_def)
  obtain b' bs where e: "the (MakeMove zobrist_example 405 startpos) = (b', bs)"
    by (cases "the (MakeMove zobrist_example 405 startpos)")
  from halfmove_clock_wraps[OF pieces_agree_startpos s[unfolded e]] n h
  show ?thesis using pieces_agree_startpos s e by simp
qed

text \<open>Claim C7 as stated fails: with the clock at 255, the knight move g1f3 from the
  initial position, which is neither a capture nor a pawn move, brings the clock to 0.\<close>

theorem halfmove_clock_saturates_counterexample:
  "Halfmoveclock startpos_255 = 255 \<and>
   \<not> is_capture startpos_255 405 \<and> \<not> is_pawn_move startpos_255 405 \<and>
   map_option (Halfmoveclock \<circ> fst) (MakeMove zobrist_example 405 startpos_255) = Some 0"
proof -
  obtain b' bs where s: "MakeMove zobrist_example 405 startpos_255 = Some (b', bs)"
    using make_start_255 by blast
  have n: "\<not> is_capture startpos_255 405" "\<not> is_pawn_move startpos_255 405"
    by (simp_all add: is_capture_def is_ep_capture_def is_pawn_move_def ev_make
        startpos_255_def startpos_def)
  have h: "Halfmoveclock startpos_255 = 255" by (simp add: startpos_255_def)
  from halfmove_clock[OF pieces_agree_startpos_255 s] n h have "Halfmoveclock b' = 0" by simp
  with s n h show ?thesis by simp
qed

subsection \<open>Castle rights\<close>

lemma rights_le_refl [simp]: "rights_le r r"
  by (simp add: rights_le_def)

lemma rights_le_trans: "rights_le r3 r2 \<Longrightarrow> rights_le r2 r1 \<Longrightarrow> rights_le r3 r1"
  unfolding rights_le_def
proof
  fix c assume a: "\<forall>c. r3 c AND NOT (r2 c) = 0" "\<forall>c. r2 c AND NOT (r1 c) = 0"
  show "r3 c AND NOT (r1 c) = 0"
  proof (rule bit_word_eqI)
    fix n assume "n < LENGTH(8)"
    from a have "\<not> bit (r3 c AND NOT (r2 c)) n" "\<not> bit (r2 c AND NOT (r1 c)) n" by simp_all
    then show "bit (r3 c AND NOT (r1 c)) n = bit (0::u8) n"
      by (auto simp: bit_simps)
  qed
qed

lemma xor_flag_le:
  fixes x f :: u8
  assumes "x AND f = f"
  shows "(x XOR f) AND NOT x = 0"
proof (rule bit_word_eqI)
  fix n assume "n < LENGTH(8)"
  from assms have "bit (x AND f) n = bit f n" by simp
  then show "bit ((x XOR f) AND NOT x) n = bit (0::u8) n"
    by (auto simp: bit_simps)
qed

lemma and_push_bit_1: "(x::'a::len word) AND push_bit k 1 = (if bit x k then push_bit k 1 else 0)"
  by (rule bit_word_eqI) (auto simp: bit_simps)

lemma toFlag_push: "toFlag side = push_bit (case side of Queenside \<Rightarrow> 0 | Kingside \<Rightarrow> 1) 1"
  by (cases side) simp_all

lemma flag_and_full: "(x::u8) AND toFlag side \<noteq> 0 \<Longrightarrow> x AND toFlag side = toFlag side"
  unfolding toFlag_push and_push_bit_1 by (simp split: if_splits)

lemma flip_le:
  "canCastle b c side \<Longrightarrow> rights_le (castlerights (flipCastleRights z c side b)) (castlerights b)"
  unfolding rights_le_def canCastle_def flipCastleRights_def
  by (auto dest!: flag_and_full intro: xor_flag_le)


lemma strip_rights_le:
  "rights_le (castlerights (stripKingMoveRights z b)) (castlerights b)"
  "rights_le (castlerights (stripRookMoveRights z fb sr b)) (castlerights b)"
  "rights_le (castlerights (stripRookCaptureRights z t tb sr b)) (castlerights b)"
proof -
  show "rights_le (castlerights (stripRookMoveRights z fb sr b)) (castlerights b)"
    by (simp add: stripRookMoveRights_def flipOurCastleRights_def weCanCastle_def flip_le)
  show "rights_le (castlerights (stripRookCaptureRights z t tb sr b)) (castlerights b)"
    by (simp add: stripRookCaptureRights_def flipOppCastleRights_def oppCanCastle_def flip_le)
  let ?b1 = "if weCanCastle b Kingside then flipOurCastleRights z Kingside b else b"
  have 1: "rights_le (castlerights ?b1) (castlerights b)"
    by (simp add: flipOurCastleRights_def weCanCastle_def flip_le)
  have 2: "rights_le (castlerights (if weCanCastle ?b1 Queenside then flipOurCastleRights z Queenside ?b1 else ?b1))
             (castlerights ?b1)"
    by (simp only: flipOurCastleRights_def weCanCastle_def flip_le rights_le_refl if_split[where P="\<lambda>x. rights_le (castlerights x) _"])
       (auto intro: flip_le)
  show "rights_le (castlerights (stripKingMoveRights z b)) (castlerights b)"
    unfolding stripKingMoveRights_def Let_def by (rule rights_le_trans[OF 2 1])
qed

end
